theory Spec2Isabelle
  imports Complex_Main "HOL-Library.Log_Nat" "HOL-Library.Word"
begin

section \<open>Python values\<close>

text \<open>
  The attributes of a model object and the body of a request hold Python values whose
  type is fixed only at run time.  \<open>pyval\<close> is the part of them the program handles:
  what \<^verbatim>\<open>request.get_json()\<close> can return and what \<^verbatim>\<open>to_dict\<close> puts in its result.
  A float is the rational its double stands for; a dict is its list of items, the first
  item of a key being the one \<open>map_of\<close> reads.
\<close>

datatype pyval =
    PNone
  | PBool bool
  | PInt int
  | PFloat rat
  | PStr string
  | PList "pyval list"
  | PDict "(string \<times> pyval) list"

text \<open>Truth value testing, as \<^verbatim>\<open>not x\<close> and \<^verbatim>\<open>if x\<close> do it.\<close>

fun truthy :: "pyval \<Rightarrow> bool" where
  "truthy PNone = False"
| "truthy (PBool b) = b"
| "truthy (PInt i) = (i \<noteq> 0)"
| "truthy (PFloat r) = (r \<noteq> 0)"
| "truthy (PStr s) = (s \<noteq> [])"
| "truthy (PList xs) = (xs \<noteq> [])"
| "truthy (PDict kvs) = (kvs \<noteq> [])"

text \<open>
  A \<^verbatim>\<open>datetime\<close> is a count of microseconds; \<^verbatim>\<open>isoformat\<close> belongs to the standard
  library and is a parameter \<open>fmt\<close> of every function that calls it.
\<close>

type_synonym datetime = nat

definition opt_int :: "int option \<Rightarrow> pyval" where
  "opt_int v = (case v of None \<Rightarrow> PNone | Some i \<Rightarrow> PInt i)"

definition opt_str :: "string option \<Rightarrow> pyval" where
  "opt_str v = (case v of None \<Rightarrow> PNone | Some s \<Rightarrow> PStr s)"

definition isoformat_or_None :: "(datetime \<Rightarrow> string) \<Rightarrow> datetime option \<Rightarrow> pyval" where
  \<comment> \<open>\<^verbatim>\<open>x.isoformat() if x else None\<close>\<close>
  "isoformat_or_None fmt v = (case v of None \<Rightarrow> PNone | Some t \<Rightarrow> PStr (fmt t))"

section \<open>Double precision\<close>

text \<open>
  A Python float is an IEEE 754 double: a rational \<open>m * 2 ^ k\<close> with \<open>\<bar>m\<bar> < 2 ^ 53\<close>; the
  two zeros, which \<^verbatim>\<open>==\<close> does not tell apart, are both the rational 0.
  \<open>exponent x\<close> is the \<open>e\<close> with \<open>2 ^ e \<le> \<bar>x\<bar> < 2 ^ (e + 1)\<close>, and \<open>to_double x\<close> is the
  double nearest to \<open>x\<close>, a tie going to the even significand: the rounding of every
  operation below.  It is the rounding of the hardware while \<open>e\<close> is between -1022 and
  1023; the operands \<open>calculate_progress\<close> and \<open>to_dict\<close> give it stay within that
  range (\<open>calculate_progress_in_double_range\<close>).
\<close>

definition round_half_even :: "rat \<Rightarrow> int" where
  "round_half_even x =
     (let f = \<lfloor>x\<rfloor>; d = x - of_int f
      in if d < 1 / 2 then f
         else if 1 / 2 < d then f + 1
         else if even f then f else f + 1)"

definition exponent :: "rat \<Rightarrow> int" where
  "exponent x =
     (let y = \<bar>x\<bar>
      in if 1 \<le> y then bitlen \<lfloor>y\<rfloor> - 1
         else (let f = bitlen \<lfloor>1 / y\<rfloor> - 1
               in if 1 / y = 2 powi f then - f else - f - 1))"

definition to_double :: "rat \<Rightarrow> rat" where
  "to_double x =
     (if x = 0 then 0
      else (let u = 2 powi (exponent x - 52) in of_int (round_half_even (x / u)) * u))"

definition true_div :: "int \<Rightarrow> int \<Rightarrow> rat" where
  \<comment> \<open>\<^verbatim>\<open>a / b\<close> on two ints, \<open>b\<close> not 0: the quotient, correctly rounded\<close>
  "true_div a b = to_double (of_int a / of_int b)"

definition float_mul :: "rat \<Rightarrow> rat \<Rightarrow> rat" where
  \<comment> \<open>\<^verbatim>\<open>x * y\<close> on two floats\<close>
  "float_mul x y = to_double (x * y)"

text \<open>
  \<^verbatim>\<open>round(x, n)\<close> on a float: the exact value of \<open>x\<close> is rounded to the nearest multiple
  of \<open>10 ^ - n\<close>, a tie going to the even one (\<open>decimal_round\<close>), and the result is the
  double nearest to that decimal.
\<close>

definition decimal_round :: "rat \<Rightarrow> nat \<Rightarrow> rat" where
  "decimal_round x n = of_int (round_half_even (x * 10 ^ n)) / 10 ^ n"

definition py_round :: "rat \<Rightarrow> nat \<Rightarrow> rat" where
  "py_round x n = to_double (decimal_round x n)"

section \<open>models.py: User\<close>

text \<open>
  An attribute that has not been given a value is \<^verbatim>\<open>None\<close>.  The attributes a route
  fills from the request body (\<open>email\<close>, \<open>name\<close>, \<open>position_in_school\<close>,
  \<open>is_admin\<close>, \<open>is_active\<close>) keep the Python value assigned to them.
\<close>

record user =
  u_id :: "int option"
  email :: pyval
  password_hash :: "string option"
  u_name :: pyval
  position_in_school :: pyval
  is_admin :: pyval
  u_is_active :: pyval
  u_created_at :: "datetime option"
  u_updated_at :: "datetime option"
  last_login :: "datetime option"
  password_reset_token :: "string option"
  email_verified :: pyval

definition User_to_dict :: "(datetime \<Rightarrow> string) \<Rightarrow> user \<Rightarrow> (string \<times> pyval) list" where
  "User_to_dict fmt u =
     [(''id'', opt_int (u_id u)),
      (''email'', email u),
      (''name'', u_name u),
      (''position_in_school'', position_in_school u),
      (''is_admin'', is_admin u),
      (''is_active'', u_is_active u),
      (''created_at'', isoformat_or_None fmt (u_created_at u)),
      (''last_login'', isoformat_or_None fmt (last_login u)),
      (''email_verified'', email_verified u)]"

section \<open>models.py: ProgressTracking\<close>

text \<open>
  \<open>total_parameters\<close> and \<open>completed_parameters\<close> are \<^verbatim>\<open>db.Integer\<close> columns with
  \<^verbatim>\<open>nullable=False\<close>: a row holds in each a signed integer of at most 64 bits, read by
  \<open>sint\<close>.  \<open>progress_percentage\<close> is a \<^verbatim>\<open>db.Float\<close> column and holds a double.
\<close>

record progress_tracking =
  pt_id :: "int option"
  pt_program_id :: "int option"
  pt_area_id :: "int option"
  total_parameters :: "64 word"
  completed_parameters :: "64 word"
  progress_percentage :: rat
  last_updated :: "datetime option"

text \<open>\<open>now\<close> is what \<^verbatim>\<open>datetime.utcnow()\<close> returns during the call.\<close>

definition calculate_progress :: "datetime \<Rightarrow> progress_tracking \<Rightarrow> progress_tracking" where
  "calculate_progress now p =
     (if sint (total_parameters p) > 0
      then p\<lparr>progress_percentage :=
               float_mul (true_div (sint (completed_parameters p)) (sint (total_parameters p)))
                 100\<rparr>
      else p\<lparr>progress_percentage := 0\<rparr>)
     \<lparr>last_updated := Some now\<rparr>"

text \<open>
  \<open>program_name\<close> and \<open>area_name\<close> are the values of
  \<^verbatim>\<open>self.program.name if self.program else None\<close> and of the same expression on
  \<^verbatim>\<open>self.area\<close>, which read the related rows.
\<close>

definition ProgressTracking_to_dict ::
  "(datetime \<Rightarrow> string) \<Rightarrow> pyval \<Rightarrow> pyval \<Rightarrow> progress_tracking \<Rightarrow> (string \<times> pyval) list" where
  "ProgressTracking_to_dict fmt program_name area_name p =
     [(''id'', opt_int (pt_id p)),
      (''program_id'', opt_int (pt_program_id p)),
      (''area_id'', opt_int (pt_area_id p)),
      (''total_parameters'', PInt (sint (total_parameters p))),
      (''completed_parameters'', PInt (sint (completed_parameters p))),
      (''progress_percentage'', PFloat (py_round (progress_percentage p) 2)),
      (''last_updated'', isoformat_or_None fmt (last_updated p)),
      (''program_name'', program_name),
      (''area_name'', area_name)]"

section \<open>The collaborators of a request\<close>

text \<open>
  What a route takes from outside the repository during one request: the clock, the
  storage engine (whether it answers a query, whether it accepts a commit), the password
  hashing of \<^verbatim>\<open>flask_bcrypt\<close>, the token issuer of \<^verbatim>\<open>flask_jwt_extended\<close> and the
  random password of \<^verbatim>\<open>generate_password\<close>.  A function that can raise returns
  \<open>None\<close> when it does.  The clock readings of one request are one instant.
\<close>

record env =
  utcnow :: datetime
  isoformat :: "datetime \<Rightarrow> string"
  query_ok :: bool
  commit_ok :: bool
  generate_password_hash :: "pyval \<Rightarrow> string option"
  check_password_hash :: "string \<Rightarrow> pyval \<Rightarrow> bool option"
  create_access_token :: "int option \<Rightarrow> string option"
  generate_password :: string

definition set_password :: "env \<Rightarrow> pyval \<Rightarrow> user \<Rightarrow> user option" where
  "set_password e password u =
     (case generate_password_hash e password of
        None \<Rightarrow> None
      | Some h \<Rightarrow> Some (u\<lparr>password_hash := Some h\<rparr>))"

definition check_password :: "env \<Rightarrow> user \<Rightarrow> pyval \<Rightarrow> bool option" where
  "check_password e u password =
     (case password_hash u of
        None \<Rightarrow> None
      | Some h \<Rightarrow> check_password_hash e h password)"

text \<open>
  \<^verbatim>\<open>User(email=..., name=..., position_in_school=..., is_admin=...)\<close>: the other
  attributes are \<^verbatim>\<open>None\<close> until the row is written.
\<close>

definition User :: "pyval \<Rightarrow> pyval \<Rightarrow> pyval \<Rightarrow> pyval \<Rightarrow> user" where
  "User em nm pos adm =
     \<lparr>u_id = None, email = em, password_hash = None, u_name = nm,
      position_in_school = pos, is_admin = adm, u_is_active = PNone,
      u_created_at = None, u_updated_at = None, last_login = None,
      password_reset_token = None, email_verified = PNone\<rparr>"

section \<open>The session on table users\<close>

text \<open>
  The routes of \<^verbatim>\<open>auth.py\<close> and \<^verbatim>\<open>admin.py\<close> read and write table \<open>users\<close> only.
  \<open>db\<close> is the table as last committed; \<open>uow\<close> is the table as \<^verbatim>\<open>db.session\<close> holds
  it, the committed rows with the changes of the request.  An object the route holds is
  its position in \<open>uow\<close>.
\<close>

record session =
  db :: "user list"
  uow :: "user list"

definition next_id :: "int option list \<Rightarrow> int" where
  \<comment> \<open>the key an integer primary key column gives a new row\<close>
  "next_id ids = fold max (List.map_filter (\<lambda>i. i) ids) 0 + 1"

definition insert_defaults :: "datetime \<Rightarrow> int \<Rightarrow> user \<Rightarrow> user" where
  \<comment> \<open>the INSERT of a new object: the key and the \<^verbatim>\<open>default=\<close> of each column left at None\<close>
  "insert_defaults now n u =
     u\<lparr>u_id := Some n,
       is_admin := (if is_admin u = PNone then PBool False else is_admin u),
       u_is_active := (if u_is_active u = PNone then PBool True else u_is_active u),
       u_created_at := (case u_created_at u of None \<Rightarrow> Some now | Some t \<Rightarrow> Some t),
       u_updated_at := (case u_updated_at u of None \<Rightarrow> Some now | Some t \<Rightarrow> Some t),
       email_verified := (if email_verified u = PNone then PBool False else email_verified u)\<rparr>"

definition update_defaults :: "datetime \<Rightarrow> user list \<Rightarrow> user \<Rightarrow> user" where
  \<comment> \<open>the UPDATE of a changed row: \<^verbatim>\<open>onupdate=datetime.utcnow\<close> on \<open>updated_at\<close>\<close>
  "update_defaults now old u =
     (case find (\<lambda>v. u_id v = u_id u) old of
        None \<Rightarrow> u
      | Some v \<Rightarrow>
          if u = v \<or> u_updated_at u \<noteq> u_updated_at v then u
          else u\<lparr>u_updated_at := Some now\<rparr>)"

fun flush_users :: "datetime \<Rightarrow> user list \<Rightarrow> int \<Rightarrow> user list \<Rightarrow> user list" where
  "flush_users now old n [] = []"
| "flush_users now old n (u # us) =
     (if u_id u = None then insert_defaults now n u # flush_users now old (n + 1) us
      else update_defaults now old u # flush_users now old n us)"

definition users_constraints :: "user list \<Rightarrow> bool" where
  \<comment> \<open>primary key, \<^verbatim>\<open>unique=True\<close> on email, \<^verbatim>\<open>nullable=False\<close>; checked on the whole table\<close>
  "users_constraints rows =
     (distinct (map u_id rows) \<and> distinct (map email rows) \<and>
      list_all (\<lambda>u. email u \<noteq> PNone \<and> password_hash u \<noteq> None \<and> u_name u \<noteq> PNone \<and>
                     position_in_school u \<noteq> PNone) rows)"

definition commit :: "env \<Rightarrow> session \<Rightarrow> session option" where
  \<comment> \<open>\<^verbatim>\<open>db.session.commit()\<close>; \<open>None\<close>: it raises, and the session keeps its changes\<close>
  "commit e s =
     (let rows = flush_users (utcnow e) (db s) (next_id (map u_id (uow s))) (uow s)
      in if commit_ok e \<and> users_constraints rows then Some \<lparr>db = rows, uow = rows\<rparr>
         else None)"

definition rollback :: "session \<Rightarrow> session" where
  "rollback s = s\<lparr>uow := db s\<rparr>"

definition session_add :: "user \<Rightarrow> session \<Rightarrow> session" where
  "session_add u s = s\<lparr>uow := uow s @ [u]\<rparr>"

fun first_index :: "('a \<Rightarrow> bool) \<Rightarrow> 'a list \<Rightarrow> nat option" where
  "first_index P [] = None"
| "first_index P (x # xs) = (if P x then Some 0 else map_option Suc (first_index P xs))"

definition filter_by_email_first :: "env \<Rightarrow> session \<Rightarrow> pyval \<Rightarrow> nat option option" where
  \<comment> \<open>\<^verbatim>\<open>User.query.filter_by(email=v).first()\<close>; the outer \<open>None\<close>: the query raises\<close>
  "filter_by_email_first e s v =
     (if query_ok e then Some (first_index (\<lambda>u. email u = v) (uow s)) else None)"

section \<open>Reading the request body\<close>

definition py_get :: "pyval \<Rightarrow> string \<Rightarrow> pyval option" where
  \<comment> \<open>\<^verbatim>\<open>data.get(k)\<close>; \<open>None\<close>: \<open>data\<close> is no dict and the call raises AttributeError\<close>
  "py_get data k =
     (case data of
        PDict kvs \<Rightarrow> Some (case map_of kvs k of None \<Rightarrow> PNone | Some v \<Rightarrow> v)
      | _ \<Rightarrow> None)"

definition py_get_default :: "pyval \<Rightarrow> string \<Rightarrow> pyval \<Rightarrow> pyval option" where
  \<comment> \<open>\<^verbatim>\<open>data.get(k, d)\<close>\<close>
  "py_get_default data k d =
     (case data of
        PDict kvs \<Rightarrow> Some (case map_of kvs k of None \<Rightarrow> d | Some v \<Rightarrow> v)
      | _ \<Rightarrow> None)"

definition py_item :: "pyval \<Rightarrow> string \<Rightarrow> pyval option" where
  \<comment> \<open>\<^verbatim>\<open>data[k]\<close>; \<open>None\<close>: KeyError, or TypeError when \<open>data\<close> is no dict\<close>
  "py_item data k = (case data of PDict kvs \<Rightarrow> map_of kvs k | _ \<Rightarrow> None)"

datatype check = Raised | Missing string | Present

text \<open>
  \<^verbatim>\<open>for field in required_fields: if not data or not data.get(field): return ...\<close>
\<close>

fun check_required :: "pyval \<Rightarrow> string list \<Rightarrow> check" where
  "check_required data [] = Present"
| "check_required data (field # rest) =
     (if \<not> truthy data then Missing field
      else case py_get data field of
             None \<Rightarrow> Raised
           | Some v \<Rightarrow> if \<not> truthy v then Missing field else check_required data rest)"

type_synonym response = "pyval \<times> nat"

definition error_body :: "string \<Rightarrow> pyval" where
  "error_body msg = PDict [(''error'', PStr msg)]"

definition internal_error :: response where
  "internal_error = (error_body ''Internal server error'', 500)"

section \<open>routes/auth.py\<close>

text \<open>
  A route is the body of its \<^verbatim>\<open>try\<close> and its \<^verbatim>\<open>except Exception\<close> handler.  The body
  returns the response it reaches, or \<open>None\<close> when a statement raises, together with
  the session as it is at that point.  \<open>body\<close> is the result of
  \<^verbatim>\<open>request.get_json()\<close>, \<open>None\<close> when that call raises.
\<close>

definition register_try :: "env \<Rightarrow> pyval option \<Rightarrow> session \<Rightarrow> response option \<times> session" where
  "register_try e body s =
     (case body of
        None \<Rightarrow> (None, s)
      | Some data \<Rightarrow>
     (case check_required data [''email'', ''password'', ''name'', ''position_in_school''] of
        Raised \<Rightarrow> (None, s)
      | Missing field \<Rightarrow> (Some (error_body (field @ '' is required''), 400), s)
      | Present \<Rightarrow>
     (case py_item data ''email'' of
        None \<Rightarrow> (None, s)
      | Some em \<Rightarrow>
     (case filter_by_email_first e s em of
        None \<Rightarrow> (None, s)
      | Some (Some i) \<Rightarrow> (Some (error_body ''Email already registered'', 409), s)
      | Some None \<Rightarrow>
     (case py_item data ''name'' of
        None \<Rightarrow> (None, s)
      | Some nm \<Rightarrow>
     (case py_item data ''position_in_school'' of
        None \<Rightarrow> (None, s)
      | Some pos \<Rightarrow>
     (case py_item data ''password'' of
        None \<Rightarrow> (None, s)
      | Some pw \<Rightarrow>
     (case set_password e pw (User em nm pos (PBool False)) of
        None \<Rightarrow> (None, s)
      | Some u \<Rightarrow>
     (let s1 = session_add u s
      in case commit e s1 of
           None \<Rightarrow> (None, s1)
         | Some s2 \<Rightarrow>
             (Some (PDict [(''message'', PStr ''User registered successfully''),
                           (''user'', PDict (User_to_dict (isoformat e) (uow s2 ! length (uow s))))],
                    201), s2))))))))))"

definition register :: "env \<Rightarrow> pyval option \<Rightarrow> session \<Rightarrow> response \<times> session" where
  "register e body s =
     (case register_try e body s of
        (None, s') \<Rightarrow> (internal_error, rollback s')
      | (Some r, s') \<Rightarrow> (r, s'))"

text \<open>
  \<^verbatim>\<open>not data or not data.get('email') or not data.get('password')\<close> evaluates as the
  loop of \<open>check_required\<close> over the two keys does.
\<close>

definition login_try :: "env \<Rightarrow> pyval option \<Rightarrow> session \<Rightarrow> response option \<times> session" where
  "login_try e body s =
     (case body of
        None \<Rightarrow> (None, s)
      | Some data \<Rightarrow>
     (case check_required data [''email'', ''password''] of
        Raised \<Rightarrow> (None, s)
      | Missing field \<Rightarrow> (Some (error_body ''Email and password are required'', 400), s)
      | Present \<Rightarrow>
     (case py_item data ''email'' of
        None \<Rightarrow> (None, s)
      | Some em \<Rightarrow>
     (case filter_by_email_first e s em of
        None \<Rightarrow> (None, s)
      | Some None \<Rightarrow> (Some (error_body ''Invalid email or password'', 401), s)
      | Some (Some i) \<Rightarrow>
     (case py_item data ''password'' of
        None \<Rightarrow> (None, s)
      | Some pw \<Rightarrow>
     (case check_password e (uow s ! i) pw of
        None \<Rightarrow> (None, s)
      | Some False \<Rightarrow> (Some (error_body ''Invalid email or password'', 401), s)
      | Some True \<Rightarrow>
     (if \<not> truthy (u_is_active (uow s ! i))
      then (Some (error_body ''Account is deactivated'', 401), s)
      else
     (let s1 = s\<lparr>uow := (uow s)[i := (uow s ! i)\<lparr>last_login := Some (utcnow e)\<rparr>]\<rparr>
      in case commit e s1 of
           None \<Rightarrow> (None, s1)
         | Some s2 \<Rightarrow>
             (case create_access_token e (u_id (uow s2 ! i)) of
                None \<Rightarrow> (None, s2)
              | Some token \<Rightarrow>
                  (Some (PDict [(''access_token'', PStr token),
                                (''user'', PDict (User_to_dict (isoformat e) (uow s2 ! i)))],
                         200), s2))))))))))"

text \<open>The handler of \<^verbatim>\<open>login\<close> logs and answers; it does not call \<^verbatim>\<open>db.session.rollback()\<close>.\<close>

definition login :: "env \<Rightarrow> pyval option \<Rightarrow> session \<Rightarrow> response \<times> session" where
  "login e body s =
     (case login_try e body s of
        (None, s') \<Rightarrow> (internal_error, s')
      | (Some r, s') \<Rightarrow> (r, s'))"

section \<open>routes/admin.py\<close>

text \<open>
  \<open>create_user\<close> is the view function, reached once \<^verbatim>\<open>jwt_required\<close> and
  \<^verbatim>\<open>admin_required\<close> have let the request through.
\<close>

definition py_or :: "pyval \<Rightarrow> pyval \<Rightarrow> pyval" where
  \<comment> \<open>\<^verbatim>\<open>a or b\<close>\<close>
  "py_or a b = (if truthy a then a else b)"

definition create_user_try :: "env \<Rightarrow> pyval option \<Rightarrow> session \<Rightarrow> response option \<times> session" where
  "create_user_try e body s =
     (case body of
        None \<Rightarrow> (None, s)
      | Some data \<Rightarrow>
     (case check_required data [''email'', ''name'', ''position_in_school''] of
        Raised \<Rightarrow> (None, s)
      | Missing field \<Rightarrow> (Some (error_body (field @ '' is required''), 400), s)
      | Present \<Rightarrow>
     (case py_item data ''email'' of
        None \<Rightarrow> (None, s)
      | Some em \<Rightarrow>
     (case filter_by_email_first e s em of
        None \<Rightarrow> (None, s)
      | Some (Some i) \<Rightarrow> (Some (error_body ''Email already exists'', 409), s)
      | Some None \<Rightarrow>
     (case py_get data ''password'' of
        None \<Rightarrow> (None, s)
      | Some given \<Rightarrow>
     (let password = py_or given (PStr (generate_password e))
      in case py_item data ''name'' of
        None \<Rightarrow> (None, s)
      | Some nm \<Rightarrow>
     (case py_item data ''position_in_school'' of
        None \<Rightarrow> (None, s)
      | Some pos \<Rightarrow>
     (case py_get_default data ''is_admin'' (PBool False) of
        None \<Rightarrow> (None, s)
      | Some adm \<Rightarrow>
     (case set_password e password (User em nm pos adm) of
        None \<Rightarrow> (None, s)
      | Some u \<Rightarrow>
     (let s1 = session_add u s
      in case commit e s1 of
           None \<Rightarrow> (None, s1)
         | Some s2 \<Rightarrow>
             (Some (PDict [(''message'', PStr ''User created successfully''),
                           (''user'', PDict (User_to_dict (isoformat e) (uow s2 ! length (uow s))
                                       @ [(''generated_password'', password)]))],
                    201), s2)))))))))))"

definition create_user :: "env \<Rightarrow> pyval option \<Rightarrow> session \<Rightarrow> response \<times> session" where
  "create_user e body s =
     (case create_user_try e body s of
        (None, s') \<Rightarrow> (internal_error, rollback s')
      | (Some r, s') \<Rightarrow> (r, s'))"

section \<open>models.py: the other tables\<close>

text \<open>
  One record for each model class, one field for each column.  A stored row has its
  key; an object that has not been written has \<open>None\<close> there, as in every attribute it
  was not given.  \<open>user\<close> and \<open>progress_tracking\<close> are above.
\<close>

record accreditation =
  acc_id :: "int option"
  acc_name :: "string option"
  year :: "int option"
  acc_description :: "string option"
  created_by :: "int option"
  acc_created_at :: "datetime option"
  acc_updated_at :: "datetime option"
  acc_is_active :: "bool option"

record program =
  prog_id :: "int option"
  prog_name :: "string option"
  prog_description :: "string option"
  due_date :: "datetime option"
  prog_accreditation_id :: "int option"
  prog_created_at :: "datetime option"
  prog_updated_at :: "datetime option"
  prog_is_active :: "bool option"

record area =
  ar_id :: "int option"
  ar_name :: "string option"
  ar_description :: "string option"
  ar_program_id :: "int option"
  chairperson_id :: "int option"
  ar_created_at :: "datetime option"
  ar_updated_at :: "datetime option"
  ar_is_active :: "bool option"

record parameter =
  par_id :: "int option"
  par_name :: "string option"
  par_description :: "string option"
  par_area_id :: "int option"
  assigned_member_id :: "int option"
  par_created_at :: "datetime option"
  par_updated_at :: "datetime option"
  par_is_active :: "bool option"

record accreditation_member =
  mem_id :: "int option"
  mem_accreditation_id :: "int option"
  mem_user_id :: "int option"
  added_by :: "int option"
  added_at :: "datetime option"
  mem_is_active :: "bool option"

definition STATUS_PENDING :: string where "STATUS_PENDING = ''pending''"
definition STATUS_APPROVED_BY_CHAIR :: string where "STATUS_APPROVED_BY_CHAIR = ''approved_by_chair''"
definition STATUS_REJECTED_BY_CHAIR :: string where "STATUS_REJECTED_BY_CHAIR = ''rejected_by_chair''"
definition STATUS_APPROVED_BY_ADMIN :: string where "STATUS_APPROVED_BY_ADMIN = ''approved_by_admin''"
definition STATUS_REJECTED_BY_ADMIN :: string where "STATUS_REJECTED_BY_ADMIN = ''rejected_by_admin''"

definition SUBMISSION_STATUSES :: "string list" where
  "SUBMISSION_STATUSES =
     [STATUS_PENDING, STATUS_APPROVED_BY_CHAIR, STATUS_REJECTED_BY_CHAIR,
      STATUS_APPROVED_BY_ADMIN, STATUS_REJECTED_BY_ADMIN]"

definition FILE_TYPES :: "string list" where
  "FILE_TYPES = [''pdf'', ''doc'', ''docx'', ''video'', ''link'']"

record submission =
  sub_id :: "int option"
  parameter_id :: "int option"
  submitted_by :: "int option"
  file_path :: "string option"
  file_name :: "string option"
  file_type :: "string option"
  website_link :: "string option"
  status :: "string option"
  submitted_at :: "datetime option"
  reviewed_at :: "datetime option"
  reviewed_by :: "int option"
  comments :: "string option"
  version :: "int option"

definition TYPE_ASSIGNMENT :: string where "TYPE_ASSIGNMENT = ''assignment''"
definition TYPE_APPROVAL :: string where "TYPE_APPROVAL = ''approval''"
definition TYPE_REJECTION :: string where "TYPE_REJECTION = ''rejection''"
definition TYPE_DEADLINE :: string where "TYPE_DEADLINE = ''deadline''"
definition TYPE_GENERAL :: string where "TYPE_GENERAL = ''general''"

definition NOTIFICATION_TYPES :: "string list" where
  "NOTIFICATION_TYPES =
     [TYPE_ASSIGNMENT, TYPE_APPROVAL, TYPE_REJECTION, TYPE_DEADLINE, TYPE_GENERAL]"

record notification =
  ntf_id :: "int option"
  ntf_user_id :: "int option"
  title :: "string option"
  message :: "string option"
  ntf_type :: "string option"
  is_read :: "bool option"
  email_sent :: "bool option"
  ntf_created_at :: "datetime option"
  related_submission_id :: "int option"
  related_area_id :: "int option"

section \<open>The store\<close>

record store =
  users :: "user list"
  accreditations :: "accreditation list"
  programs :: "program list"
  areas :: "area list"
  parameters :: "parameter list"
  members :: "accreditation_member list"
  submissions :: "submission list"
  notifications :: "notification list"
  progress :: "progress_tracking list"

text \<open>
  A foreign key refers to a key when it is not NULL and equal to it.  Whether the
  storage engine checks foreign keys and the values of \<^verbatim>\<open>db.Enum\<close> columns depends on
  the engine \<^verbatim>\<open>DATABASE_URL\<close> names; \<open>backend\<close> says what it does.
\<close>

definition refers :: "int option \<Rightarrow> int option \<Rightarrow> bool" where
  "refers fk key = (fk \<noteq> None \<and> fk = key)"

record backend =
  enforces_foreign_keys :: bool
  enforces_enums :: bool

definition default_to :: "'a \<Rightarrow> 'a option \<Rightarrow> 'a option" where
  \<comment> \<open>\<^verbatim>\<open>default=d\<close>: the value written when the attribute is None\<close>
  "default_to d v = (case v of None \<Rightarrow> Some d | Some x \<Rightarrow> Some x)"

definition key_or_next :: "int option list \<Rightarrow> int option \<Rightarrow> int option" where
  "key_or_next keys v = (case v of None \<Rightarrow> Some (next_id keys) | Some i \<Rightarrow> Some i)"

definition in_enum :: "string list \<Rightarrow> string option \<Rightarrow> bool" where
  "in_enum names v = (case v of None \<Rightarrow> True | Some x \<Rightarrow> x \<in> set names)"

definition fk_ok :: "int option list \<Rightarrow> int option \<Rightarrow> bool" where
  "fk_ok keys fk = (case fk of None \<Rightarrow> True | Some i \<Rightarrow> Some i \<in> set keys)"

text \<open>
  The INSERT of an \<open>AccreditationMember\<close>: defaults, \<^verbatim>\<open>nullable=False\<close>, the primary
  key, \<^verbatim>\<open>UniqueConstraint('accreditation_id', 'user_id')\<close>, the foreign keys.
  \<open>None\<close>: the store raises IntegrityError and is unchanged.
\<close>

definition insert_accreditation_member ::
  "backend \<Rightarrow> datetime \<Rightarrow> store \<Rightarrow> accreditation_member \<Rightarrow> store option" where
  "insert_accreditation_member b now st m =
     (let row = m\<lparr>mem_id := key_or_next (map mem_id (members st)) (mem_id m),
                  added_at := default_to now (added_at m),
                  mem_is_active := default_to True (mem_is_active m)\<rparr>
      in if mem_accreditation_id row = None \<or> mem_user_id row = None \<or> added_by row = None
         then None
         else if mem_id row \<in> set (map mem_id (members st)) then None
         else if (mem_accreditation_id row, mem_user_id row)
                   \<in> set (map (\<lambda>x. (mem_accreditation_id x, mem_user_id x)) (members st))
         then None
         else if enforces_foreign_keys b \<and>
                 \<not> (fk_ok (map acc_id (accreditations st)) (mem_accreditation_id row) \<and>
                    fk_ok (map u_id (users st)) (mem_user_id row) \<and>
                    fk_ok (map u_id (users st)) (added_by row))
         then None
         else Some (st\<lparr>members := members st @ [row]\<rparr>))"

text \<open>
  The INSERT of a \<open>Submission\<close>.  The class declares no \<^verbatim>\<open>__table_args__\<close>: the
  primary key is its only uniqueness constraint, and \<open>version\<close> has \<^verbatim>\<open>default=1\<close>.
\<close>

definition insert_submission ::
  "backend \<Rightarrow> datetime \<Rightarrow> store \<Rightarrow> submission \<Rightarrow> store option" where
  "insert_submission b now st x =
     (let row = x\<lparr>sub_id := key_or_next (map sub_id (submissions st)) (sub_id x),
                  status := default_to STATUS_PENDING (status x),
                  submitted_at := default_to now (submitted_at x),
                  version := default_to 1 (version x)\<rparr>
      in if parameter_id row = None \<or> submitted_by row = None then None
         else if sub_id row \<in> set (map sub_id (submissions st)) then None
         else if enforces_enums b \<and>
                 \<not> (in_enum FILE_TYPES (file_type row) \<and> in_enum SUBMISSION_STATUSES (status row))
         then None
         else if enforces_foreign_keys b \<and>
                 \<not> (fk_ok (map par_id (parameters st)) (parameter_id row) \<and>
                    fk_ok (map u_id (users st)) (submitted_by row) \<and>
                    fk_ok (map u_id (users st)) (reviewed_by row))
         then None
         else Some (st\<lparr>submissions := submissions st @ [row]\<rparr>))"

section \<open>Relationships and the delete cascade\<close>

text \<open>
  \<^verbatim>\<open>db.relationship\<close> with \<^verbatim>\<open>cascade='all, delete-orphan'\<close>: the collection of a parent
  is the rows whose foreign key refers to it, and deleting the parent deletes each of
  them first.  A relationship without that cascade (\<open>Submission.notifications\<close>,
  \<open>Area.notifications\<close>) sets the foreign key of its rows to NULL instead.
\<close>

definition accreditation_programs :: "store \<Rightarrow> accreditation \<Rightarrow> program list" where
  "accreditation_programs st a =
     filter (\<lambda>p. refers (prog_accreditation_id p) (acc_id a)) (programs st)"

definition accreditation_members :: "store \<Rightarrow> accreditation \<Rightarrow> accreditation_member list" where
  "accreditation_members st a =
     filter (\<lambda>m. refers (mem_accreditation_id m) (acc_id a)) (members st)"

definition program_areas :: "store \<Rightarrow> program \<Rightarrow> area list" where
  "program_areas st p = filter (\<lambda>r. refers (ar_program_id r) (prog_id p)) (areas st)"

definition program_progress_tracking :: "store \<Rightarrow> program \<Rightarrow> progress_tracking list" where
  "program_progress_tracking st p =
     filter (\<lambda>t. refers (pt_program_id t) (prog_id p)) (progress st)"

definition area_parameters :: "store \<Rightarrow> area \<Rightarrow> parameter list" where
  "area_parameters st r = filter (\<lambda>q. refers (par_area_id q) (ar_id r)) (parameters st)"

definition area_progress_tracking :: "store \<Rightarrow> area \<Rightarrow> progress_tracking list" where
  "area_progress_tracking st r =
     filter (\<lambda>t. refers (pt_area_id t) (ar_id r)) (progress st)"

definition parameter_submissions :: "store \<Rightarrow> parameter \<Rightarrow> submission list" where
  "parameter_submissions st q =
     filter (\<lambda>x. refers (parameter_id x) (par_id q)) (submissions st)"

definition delete_submission :: "submission \<Rightarrow> store \<Rightarrow> store" where
  "delete_submission x st =
     st\<lparr>notifications :=
          map (\<lambda>n. if refers (related_submission_id n) (sub_id x)
                    then n\<lparr>related_submission_id := None\<rparr> else n) (notifications st),
        submissions := removeAll x (submissions st)\<rparr>"

definition delete_parameter :: "parameter \<Rightarrow> store \<Rightarrow> store" where
  "delete_parameter q st =
     (let st1 = fold delete_submission (parameter_submissions st q) st
      in st1\<lparr>parameters := removeAll q (parameters st1)\<rparr>)"

definition delete_progress_tracking :: "progress_tracking \<Rightarrow> store \<Rightarrow> store" where
  "delete_progress_tracking t st = st\<lparr>progress := removeAll t (progress st)\<rparr>"

definition delete_area :: "area \<Rightarrow> store \<Rightarrow> store" where
  "delete_area r st =
     (let st1 = fold delete_parameter (area_parameters st r) st;
          st2 = fold delete_progress_tracking (area_progress_tracking st1 r) st1
      in st2\<lparr>notifications :=
               map (\<lambda>n. if refers (related_area_id n) (ar_id r)
                         then n\<lparr>related_area_id := None\<rparr> else n) (notifications st2),
             areas := removeAll r (areas st2)\<rparr>)"

definition delete_program :: "program \<Rightarrow> store \<Rightarrow> store" where
  "delete_program p st =
     (let st1 = fold delete_area (program_areas st p) st;
          st2 = fold delete_progress_tracking (program_progress_tracking st1 p) st1
      in st2\<lparr>programs := removeAll p (programs st2)\<rparr>)"

definition delete_accreditation_member :: "accreditation_member \<Rightarrow> store \<Rightarrow> store" where
  "delete_accreditation_member m st = st\<lparr>members := removeAll m (members st)\<rparr>"

definition delete_accreditation :: "accreditation \<Rightarrow> store \<Rightarrow> store" where
  "delete_accreditation a st =
     (let st1 = fold delete_program (accreditation_programs st a) st;
          st2 = fold delete_accreditation_member (accreditation_members st1 a) st1
      in st2\<lparr>accreditations := removeAll a (accreditations st2)\<rparr>)"

section \<open>The review workflow of the specification\<close>

text \<open>
  The repository declares the tables of the workflow and has no operation on them:
  Submit, Review as admin and Recompute are in none of its files.  Each definition of
  this section follows the words of the specification (sections 4.1, 4.2, 4.3, 6 and 7),
  on the tables and the INSERT of \<^verbatim>\<open>models.py\<close> above.
\<close>

text \<open>Modelled from the spec: the error taxonomy of section 7; the repository has no such type.\<close>

datatype error =
    ValidationError
  | AuthenticationError
  | AuthorizationError
  | NotFoundError
  | ConflictError
  | DependencyError

text \<open>
  Modelled from the spec: the payload of Submit, "a file reference (type in closed set)
  or a website link"; a file reference is the path/name pair of the file storage and
  its type.  Submit is absent from the repository.
\<close>

record payload =
  pl_file_path :: "string option"
  pl_file_name :: "string option"
  pl_file_type :: "string option"
  pl_website_link :: "string option"

text \<open>Modelled from the spec: whether the payload of Submit supplies a file reference.\<close>

definition supplies_file :: "payload \<Rightarrow> bool" where
  "supplies_file pl =
     (pl_file_path pl \<noteq> None \<and> pl_file_name pl \<noteq> None \<and>
      (case pl_file_type pl of None \<Rightarrow> False | Some t \<Rightarrow> t \<in> set FILE_TYPES))"

text \<open>Modelled from the spec: whether the payload of Submit supplies a website link.\<close>

definition supplies_link :: "payload \<Rightarrow> bool" where
  "supplies_link pl = (pl_website_link pl \<noteq> None)"

text \<open>
  Modelled from the spec: "version = (max existing version for this parameter) + 1" of
  Submit, 1 for the first Submission of a Parameter.
\<close>

definition next_version :: "store \<Rightarrow> int \<Rightarrow> int" where
  "next_version st pid =
     (case List.map_filter version (filter (\<lambda>x. parameter_id x = Some pid) (submissions st)) of
        [] \<Rightarrow> 1
      | v # vs \<Rightarrow> fold max vs v + 1)"

text \<open>
  Modelled from the spec: the Notification of a transition (section 4.3), "zero or one
  Notification row ... addressed to a single recipient, with email_sent initially
  false"; none when there is no recipient.  \<open>wording\<close> is its title and message, which the
  specification leaves open.  No code of the repository creates a Notification.
\<close>

definition notify ::
  "datetime \<Rightarrow> int option \<Rightarrow> string \<Rightarrow> string \<times> string \<Rightarrow> int option \<Rightarrow> int option \<Rightarrow> store \<Rightarrow> store" where
  "notify now recipient ty wording sid aid st =
     (case recipient of
        None \<Rightarrow> st
      | Some uid \<Rightarrow>
          st\<lparr>notifications := notifications st @
               [\<lparr>ntf_id = Some (next_id (map ntf_id (notifications st))),
                 ntf_user_id = Some uid, title = Some (fst wording),
                 message = Some (snd wording),
                 ntf_type = Some ty, is_read = Some False, email_sent = Some False,
                 ntf_created_at = Some now, related_submission_id = sid,
                 related_area_id = aid\<rparr>]\<rparr>)"

text \<open>
  Modelled from the spec: Submit(parameter, submitter, payload) of section 4.1, absent
  from the repository.  The payload is validated first; the Submission is created at the
  next version with status pending, through the INSERT of the table; an assignment
  notification goes to the chairperson of the Parameter's Area.  The result is the error,
  if any, and the store, which an error leaves as it was (section 7).
\<close>

definition submit ::
  "backend \<Rightarrow> datetime \<Rightarrow> string \<times> string \<Rightarrow> store \<Rightarrow> int \<Rightarrow> int \<Rightarrow> payload \<Rightarrow> error option \<times> store" where
  "submit b now wording st pid submitter pl =
     (if (\<not> supplies_file pl \<and> \<not> supplies_link pl) \<or> \<not> in_enum FILE_TYPES (pl_file_type pl)
      then (Some ValidationError, st)
      else case find (\<lambda>q. par_id q = Some pid) (parameters st) of
        None \<Rightarrow> (Some NotFoundError, st)
      | Some q \<Rightarrow>
          (let x = \<lparr>sub_id = None, parameter_id = Some pid, submitted_by = Some submitter,
                    file_path = pl_file_path pl, file_name = pl_file_name pl,
                    file_type = pl_file_type pl, website_link = pl_website_link pl,
                    status = Some STATUS_PENDING, submitted_at = None, reviewed_at = None,
                    reviewed_by = None, comments = None,
                    version = Some (next_version st pid)\<rparr>
           in case insert_submission b now st x of
                None \<Rightarrow> (Some ConflictError, st)
              | Some st1 \<Rightarrow>
                  (None,
                   notify now
                     (case find (\<lambda>r. refers (par_area_id q) (ar_id r)) (areas st) of
                        None \<Rightarrow> None
                      | Some r \<Rightarrow> chairperson_id r)
                     TYPE_ASSIGNMENT wording
                     (key_or_next (map sub_id (submissions st)) None) (par_area_id q) st1)))"

text \<open>
  Modelled from the spec: Recompute of section 4.2, absent from the repository.
  \<open>scope_parameters\<close> is "the active Parameters in scope", the scope of a row being its
  Area when it has one and its Program otherwise; \<open>latest_submission\<close> is the
  "latest-version Submission" of a Parameter; the percentage is the one
  \<open>calculate_progress\<close> of \<^verbatim>\<open>models.py\<close> computes.
\<close>

definition scope_parameters :: "store \<Rightarrow> progress_tracking \<Rightarrow> parameter list" where
  "scope_parameters st t =
     filter (\<lambda>q. par_is_active q = Some True \<and>
               (case pt_area_id t of
                  Some a \<Rightarrow> par_area_id q = Some a
                | None \<Rightarrow> \<exists>r \<in> set (areas st). refers (ar_program_id r) (pt_program_id t) \<and>
                                              refers (par_area_id q) (ar_id r)))
       (parameters st)"

text \<open>Modelled from the spec: the version of a Submission, for the comparison of Recompute.\<close>

definition version_of :: "submission \<Rightarrow> int" where
  "version_of x = (case version x of None \<Rightarrow> 0 | Some v \<Rightarrow> v)"

text \<open>Modelled from the spec: the "latest-version Submission" of a Parameter (section 4.2).\<close>

definition latest_submission :: "store \<Rightarrow> parameter \<Rightarrow> submission option" where
  "latest_submission st q =
     (case parameter_submissions st q of
        [] \<Rightarrow> None
      | x # xs \<Rightarrow> Some (fold (\<lambda>y m. if version_of m < version_of y then y else m) xs x))"

text \<open>
  Modelled from the spec: a Parameter counts as completed when its latest-version
  Submission has status approved_by_admin (section 4.2).
\<close>

definition completed :: "store \<Rightarrow> parameter \<Rightarrow> bool" where
  "completed st q =
     (case latest_submission st q of
        None \<Rightarrow> False
      | Some x \<Rightarrow> status x = Some STATUS_APPROVED_BY_ADMIN)"

text \<open>Modelled from the spec: Recompute on one ProgressTracking row (section 4.2).\<close>

definition Recompute :: "datetime \<Rightarrow> store \<Rightarrow> progress_tracking \<Rightarrow> progress_tracking" where
  "Recompute now st t =
     calculate_progress now
       (t\<lparr>total_parameters := of_nat (length (scope_parameters st t)),
          completed_parameters :=
            of_nat (length (filter (completed st) (scope_parameters st t)))\<rparr>)"

text \<open>
  Modelled from the spec: "on final approval, triggers progress recomputation for the
  owning Area and Program" (section 4.1): every ProgressTracking row whose scope holds
  the Parameter of the Submission is recomputed.
\<close>

definition recompute_owning :: "datetime \<Rightarrow> store \<Rightarrow> submission \<Rightarrow> store" where
  "recompute_owning now st x =
     st\<lparr>progress :=
          map (\<lambda>t. if \<exists>q \<in> set (parameters st). refers (parameter_id x) (par_id q) \<and>
                       (case pt_area_id t of
                          Some a \<Rightarrow> par_area_id q = Some a
                        | None \<Rightarrow> \<exists>r \<in> set (areas st). refers (ar_program_id r) (pt_program_id t) \<and>
                                                      refers (par_area_id q) (ar_id r))
                    then Recompute now st t else t)
            (progress st)\<rparr>"

text \<open>
  Modelled from the spec: the verified (user_id, is_admin) pair the core takes from the
  authentication collaborator for each request (section 6).
\<close>

record caller =
  caller_id :: int
  caller_is_admin :: bool

text \<open>Modelled from the spec: the decision of a review, approve or reject (section 4.1).\<close>

datatype decision = Approve | Reject

text \<open>
  Modelled from the spec: Review as admin(submission, decision, comments) of section 4.1,
  absent from the repository.  The caller's role is checked before anything else
  (Forbidden is the AuthorizationError of section 7); InvalidTransition is the
  ConflictError of section 7.  The result is the error, if any, and the store, which an
  error leaves as it was.
\<close>

definition review_admin ::
  "datetime \<Rightarrow> string \<times> string \<Rightarrow> store \<Rightarrow> caller \<Rightarrow> int \<Rightarrow> decision \<Rightarrow> string option
     \<Rightarrow> error option \<times> store" where
  "review_admin now wording st c sid d cm =
     (if \<not> caller_is_admin c then (Some AuthorizationError, st)
      else case find (\<lambda>x. sub_id x = Some sid) (submissions st) of
        None \<Rightarrow> (Some NotFoundError, st)
      | Some x \<Rightarrow>
          if status x \<noteq> Some STATUS_APPROVED_BY_CHAIR then (Some ConflictError, st)
          else
            (let st1 = st\<lparr>submissions :=
                       map (\<lambda>y. if sub_id y = Some sid
                                 then y\<lparr>status := Some (case d of
                                                          Approve \<Rightarrow> STATUS_APPROVED_BY_ADMIN
                                                        | Reject \<Rightarrow> STATUS_REJECTED_BY_ADMIN),
                                        reviewed_at := Some now,
                                        reviewed_by := Some (caller_id c),
                                        comments := cm\<rparr>
                                 else y)
                         (submissions st)\<rparr>;
                 st2 = notify now (submitted_by x)
                         (case d of Approve \<Rightarrow> TYPE_APPROVAL | Reject \<Rightarrow> TYPE_REJECTION)
                         wording (Some sid) None st1
             in (None, case d of Approve \<Rightarrow> recompute_owning now st2 x | Reject \<Rightarrow> st2)))"

section \<open>Vocabulary of the properties\<close>

definition member_pairs :: "store \<Rightarrow> (int option \<times> int option) list" where
  \<comment> \<open>the (accreditation_id, user_id) pair of every membership row\<close>
  "member_pairs st = map (\<lambda>x. (mem_accreditation_id x, mem_user_id x)) (members st)"

definition version_keys :: "store \<Rightarrow> (int option \<times> int option) list" where
  \<comment> \<open>the (parameter_id, version) pair of every submission row\<close>
  "version_keys st = map (\<lambda>x. (parameter_id x, version x)) (submissions st)"

text \<open>
  \<open>cascaded st st'\<close>: \<open>st'\<close> keeps no row of the ownership tree that \<open>st\<close> does not
  have, and every row it dropped has lost its collection.
\<close>

definition cascaded :: "store \<Rightarrow> store \<Rightarrow> bool" where
  "cascaded st st' =
     (set (submissions st') \<subseteq> set (submissions st) \<and>
      set (parameters st') \<subseteq> set (parameters st) \<and>
      set (areas st') \<subseteq> set (areas st) \<and>
      set (programs st') \<subseteq> set (programs st) \<and>
      (\<forall>q \<in> set (parameters st) - set (parameters st'). parameter_submissions st' q = []) \<and>
      (\<forall>r \<in> set (areas st) - set (areas st'). area_parameters st' r = []) \<and>
      (\<forall>p \<in> set (programs st) - set (programs st'). program_areas st' p = []))"

section \<open>Example data\<close>

definition ex_progress :: progress_tracking where
  "ex_progress =
     \<lparr>pt_id = Some 1, pt_program_id = Some 1, pt_area_id = None, total_parameters = 3,
      completed_parameters = 1, progress_percentage = 0, last_updated = None\<rparr>"

definition ex_progress_tie :: progress_tracking where
  \<comment> \<open>23 of 160 parameters completed: the exact percentage is 14.375\<close>
  "ex_progress_tie =
     \<lparr>pt_id = Some 2, pt_program_id = Some 1, pt_area_id = Some 1, total_parameters = 160,
      completed_parameters = 23, progress_percentage = 0, last_updated = None\<rparr>"

definition ex_env :: env where
  "ex_env =
     \<lparr>utcnow = 1000, isoformat = (\<lambda>t. ''2024-01-01T00:00:00''), query_ok = True,
      commit_ok = True,
      generate_password_hash = (\<lambda>p. case p of PStr w \<Rightarrow> Some (''hash of '' @ w) | _ \<Rightarrow> None),
      check_password_hash = (\<lambda>h p. case p of PStr w \<Rightarrow> Some (h = ''hash of '' @ w) | _ \<Rightarrow> None),
      create_access_token = (\<lambda>i. Some ''token''),
      generate_password = ''Xk2mP9qLw4Zt''\<rparr>"

definition ex_body :: pyval where
  "ex_body =
     PDict [(''email'', PStr ''ann@school.edu''), (''password'', PStr ''secret''),
            (''name'', PStr ''Ann''), (''position_in_school'', PStr ''Dean''),
            (''is_admin'', PBool True)]"

definition ex_user :: user where
  "ex_user =
     \<lparr>u_id = Some 1, email = PStr ''ann@school.edu'', password_hash = Some ''hash of secret'',
      u_name = PStr ''Ann'', position_in_school = PStr ''Dean'', is_admin = PBool False,
      u_is_active = PBool True, u_created_at = Some 10, u_updated_at = Some 10,
      last_login = None, password_reset_token = None, email_verified = PBool False\<rparr>"

definition ex_user2 :: user where
  "ex_user2 =
     \<lparr>u_id = Some 2, email = PStr ''bob@school.edu'', password_hash = Some ''hash of hunter2'',
      u_name = PStr ''Bob'', position_in_school = PStr ''Teacher'', is_admin = PBool False,
      u_is_active = PBool True, u_created_at = Some 20, u_updated_at = Some 20,
      last_login = None, password_reset_token = None, email_verified = PBool False\<rparr>"

definition ex_empty_session :: session where
  "ex_empty_session = \<lparr>db = [], uow = []\<rparr>"

definition ex_session :: session where
  "ex_session = \<lparr>db = [ex_user], uow = [ex_user]\<rparr>"

definition ex_accreditation :: "int \<Rightarrow> accreditation" where
  "ex_accreditation i =
     \<lparr>acc_id = Some i, acc_name = Some ''Level III'', year = Some 2024, acc_description = None,
      created_by = Some 1, acc_created_at = Some 30, acc_updated_at = Some 30,
      acc_is_active = Some True\<rparr>"

definition ex_program :: "int \<Rightarrow> int \<Rightarrow> program" where
  "ex_program i a =
     \<lparr>prog_id = Some i, prog_name = Some ''BS Computer Science'', prog_description = None,
      due_date = Some 900, prog_accreditation_id = Some a, prog_created_at = Some 40,
      prog_updated_at = Some 40, prog_is_active = Some True\<rparr>"

definition ex_area :: "int \<Rightarrow> int \<Rightarrow> area" where
  "ex_area i p =
     \<lparr>ar_id = Some i, ar_name = Some ''Faculty'', ar_description = None, ar_program_id = Some p,
      chairperson_id = Some 1, ar_created_at = Some 50, ar_updated_at = Some 50,
      ar_is_active = Some True\<rparr>"

definition ex_parameter :: "int \<Rightarrow> int \<Rightarrow> parameter" where
  "ex_parameter i r =
     \<lparr>par_id = Some i, par_name = Some ''Qualifications'', par_description = None,
      par_area_id = Some r, assigned_member_id = Some 2, par_created_at = Some 60,
      par_updated_at = Some 60, par_is_active = Some True\<rparr>"

definition ex_submission :: "int \<Rightarrow> int \<Rightarrow> string \<Rightarrow> submission" where
  "ex_submission i q s =
     \<lparr>sub_id = Some i, parameter_id = Some q, submitted_by = Some 2, file_path = None,
      file_name = None, file_type = None, website_link = Some ''https://school.edu/doc'',
      status = Some s, submitted_at = Some 70, reviewed_at = None, reviewed_by = None,
      comments = None, version = Some 1\<rparr>"

definition ex_member :: accreditation_member where
  "ex_member =
     \<lparr>mem_id = Some 1, mem_accreditation_id = Some 1, mem_user_id = Some 2, added_by = Some 1,
      added_at = Some 35, mem_is_active = Some True\<rparr>"

definition ex_store :: store where
  "ex_store =
     \<lparr>users = [ex_user, ex_user2],
      accreditations = [ex_accreditation 1, ex_accreditation 2],
      programs = [ex_program 1 1, ex_program 2 2],
      areas = [ex_area 1 1, ex_area 2 2],
      parameters = [ex_parameter 1 1, ex_parameter 2 2],
      members = [ex_member],
      submissions = [ex_submission 1 1 STATUS_APPROVED_BY_CHAIR, ex_submission 2 2 STATUS_PENDING],
      notifications = [],
      progress = [ex_progress]\<rparr>"

definition ex_backend :: backend where
  "ex_backend = \<lparr>enforces_foreign_keys = True, enforces_enums = True\<rparr>"

definition ex_new_member :: "int \<Rightarrow> int \<Rightarrow> accreditation_member" where
  \<comment> \<open>\<^verbatim>\<open>AccreditationMember(accreditation_id=a, user_id=u, added_by=1)\<close>\<close>
  "ex_new_member a u =
     \<lparr>mem_id = None, mem_accreditation_id = Some a, mem_user_id = Some u, added_by = Some 1,
      added_at = None, mem_is_active = None\<rparr>"

definition ex_new_submission :: "int option \<Rightarrow> submission" where
  \<comment> \<open>\<^verbatim>\<open>Submission(parameter_id=1, submitted_by=2, website_link=..., version=v)\<close>\<close>
  "ex_new_submission v =
     \<lparr>sub_id = None, parameter_id = Some 1, submitted_by = Some 2, file_path = None,
      file_name = None, file_type = None, website_link = Some ''https://school.edu/new'',
      status = None, submitted_at = None, reviewed_at = None, reviewed_by = None,
      comments = None, version = v\<rparr>"

definition ex_payload :: payload where
  "ex_payload =
     \<lparr>pl_file_path = None, pl_file_name = None, pl_file_type = None,
      pl_website_link = Some ''https://school.edu/new''\<rparr>"

definition ex_empty_payload :: payload where
  "ex_empty_payload =
     \<lparr>pl_file_path = None, pl_file_name = None, pl_file_type = None, pl_website_link = None\<rparr>"

definition ex_admin :: caller where
  "ex_admin = \<lparr>caller_id = 1, caller_is_admin = True\<rparr>"

definition ex_wording :: "string \<times> string" where
  "ex_wording = (''Submission'', ''A submission changed state'')"

section \<open>Double precision: the rounding and its error\<close>

lemma floor_bitlen:
  fixes z :: rat
  assumes "1 \<le> z"
  shows "2 powi (bitlen \<lfloor>z\<rfloor> - 1) \<le> z \<and> z < 2 powi (bitlen \<lfloor>z\<rfloor>)"
proof -
  let ?n = "\<lfloor>z\<rfloor>"
  have n: "0 < ?n" using assms by simp
  from bitlen_bounds [OF n] have b: "2 ^ nat (bitlen ?n - 1) \<le> ?n" "?n < 2 ^ nat (bitlen ?n)"
    by simp_all
  have l: "1 \<le> bitlen ?n" using n by (simp add: bitlen_alt_def)
  have "(2::rat) powi (bitlen ?n - 1) = of_int (2 ^ nat (bitlen ?n - 1))"
    using l by (simp add: power_int_def)
  also have "\<dots> \<le> of_int ?n" using b(1) by (simp only: of_int_le_iff)
  also have "\<dots> \<le> z" by simp
  finally have 1: "2 powi (bitlen ?n - 1) \<le> z" .
  have "?n + 1 \<le> 2 ^ nat (bitlen ?n)" using b(2) by simp
  then have "(of_int (?n + 1) :: rat) \<le> of_int (2 ^ nat (bitlen ?n))"
    by (simp only: of_int_le_iff)
  moreover have "z < of_int (?n + 1)" using floor_correct [of z] by simp
  moreover have "(2::rat) powi (bitlen ?n) = of_int (2 ^ nat (bitlen ?n))"
    using l by (simp add: power_int_def)
  ultimately have "z < 2 powi (bitlen ?n)" by simp
  with 1 show ?thesis by simp
qed

lemma exponent_bounds:
  assumes "x \<noteq> 0"
  shows "2 powi exponent x \<le> \<bar>x\<bar> \<and> \<bar>x\<bar> < 2 powi (exponent x + 1)"
proof (cases "1 \<le> \<bar>x\<bar>")
  case True
  then have "exponent x = bitlen \<lfloor>\<bar>x\<bar>\<rfloor> - 1" by (simp add: exponent_def)
  with floor_bitlen [OF True] show ?thesis by simp
next
  case False
  let ?y = "\<bar>x\<bar>"
  let ?z = "1 / ?y"
  define f where "f = bitlen \<lfloor>?z\<rfloor> - 1"
  have y: "0 < ?y" "?y < 1" using assms False by simp_all
  then have z: "1 \<le> ?z" by simp
  from floor_bitlen [OF z] have b: "2 powi f \<le> ?z" "?z < 2 powi (f + 1)"
    by (simp_all add: f_def)
  have p: "(0::rat) < 2 powi k" for k by simp
  show ?thesis
  proof (cases "?z = 2 powi f")
    case True
    then have e: "exponent x = - f" using False by (simp add: exponent_def Let_def f_def)
    from True have "?y = 1 / 2 powi f" using y by (simp add: field_simps)
    then have yy: "?y = 2 powi (- f)" by (simp only: power_int_minus_divide)
    have "(2::rat) powi (- f) < 2 powi (- f + 1)"
      by (rule power_int_strict_increasing) simp_all
    with yy e show ?thesis by simp
  next
    case neq: False
    then have e: "exponent x = - f - 1" using False by (simp add: exponent_def Let_def f_def)
    from neq b(1) have lt: "2 powi f < ?z" by simp
    have "?y < 1 / 2 powi f"
      using lt y p [of f] by (simp add: field_simps)
    then have 1: "?y < 2 powi (- f)" by (simp only: power_int_minus_divide)
    have "1 / 2 powi (f + 1) < ?y"
      using b(2) y p [of "f + 1"] by (simp add: field_simps)
    then have "2 powi (- (f + 1)) < ?y" by (simp only: power_int_minus_divide)
    moreover have "- (f + 1) = - f - 1" by simp
    ultimately have 2: "2 powi (- f - 1) < ?y" by simp
    from 1 2 e show ?thesis by simp
  qed
qed

lemma round_half_even_close: "\<bar>of_int (round_half_even x) - x\<bar> \<le> 1 / 2"
  unfolding round_half_even_def Let_def
  by (auto simp: abs_if not_less) linarith+

lemma to_double_error: "\<bar>to_double x - x\<bar> \<le> \<bar>x\<bar> / 2 ^ 53"
proof (cases "x = 0")
  case True
  then show ?thesis by (simp add: to_double_def)
next
  case False
  let ?u = "(2::rat) powi (exponent x - 52)"
  have u: "0 < ?u" by simp
  have "to_double x - x = (of_int (round_half_even (x / ?u)) - x / ?u) * ?u"
    using False u by (simp add: to_double_def Let_def field_simps)
  then have "\<bar>to_double x - x\<bar> = \<bar>of_int (round_half_even (x / ?u)) - x / ?u\<bar> * ?u"
    using u by (simp add: abs_mult)
  also have "\<dots> \<le> (1 / 2) * ?u"
    using round_half_even_close [of "x / ?u"] u by (intro mult_right_mono) simp_all
  also have "\<dots> = 2 powi exponent x / 2 ^ 53"
    by (simp add: power_int_diff)
  also have "\<dots> \<le> \<bar>x\<bar> / 2 ^ 53"
    using exponent_bounds [OF False] by (simp add: divide_right_mono)
  finally show ?thesis .
qed

lemma pow2_less_cancel:
  assumes "(2::rat) powi m < 2 powi n"
  shows "m < n"
proof (rule ccontr)
  assume "\<not> m < n"
  then have "n \<le> m" by simp
  then have "(2::rat) powi n \<le> 2 powi m" by (rule power_int_increasing) simp
  with assms show False by simp
qed

lemma exponent_range:
  assumes "x \<noteq> 0" and "2 powi lo \<le> \<bar>x\<bar>" and "\<bar>x\<bar> < 2 powi hi"
  shows "lo \<le> exponent x \<and> exponent x < hi"
proof -
  from exponent_bounds [OF assms(1)] have
    b: "2 powi exponent x \<le> \<bar>x\<bar>" "\<bar>x\<bar> < 2 powi (exponent x + 1)" by simp_all
  have "(2::rat) powi exponent x < 2 powi hi" using b(1) assms(3) by simp
  then have 1: "exponent x < hi" by (rule pow2_less_cancel)
  have "(2::rat) powi lo < 2 powi (exponent x + 1)" using b(2) assms(2) by simp
  then have "lo < exponent x + 1" by (rule pow2_less_cancel)
  with 1 show ?thesis by simp
qed

lemma decimal_round_close: "\<bar>decimal_round x n - x\<bar> \<le> 1 / (2 * 10 ^ n)"
proof -
  have p: "(0::rat) < 10 ^ n" by simp
  have "\<bar>decimal_round x n - x\<bar> =
        \<bar>of_int (round_half_even (x * 10 ^ n)) - x * 10 ^ n\<bar> / 10 ^ n"
    unfolding decimal_round_def using p
    by (simp add: field_simps abs_divide)
  also have "\<dots> \<le> (1 / 2) / 10 ^ n"
    by (rule divide_right_mono [OF round_half_even_close]) simp
  finally show ?thesis by simp
qed

lemma to_double_abs_bounds: "\<bar>x\<bar> / 2 \<le> \<bar>to_double x\<bar> \<and> \<bar>to_double x\<bar> \<le> 2 * \<bar>x\<bar>"
proof -
  have "\<bar>x\<bar> / 2 ^ 53 \<le> \<bar>x\<bar> / 2" by (simp add: divide_left_mono)
  with to_double_error [of x] have "\<bar>to_double x - x\<bar> \<le> \<bar>x\<bar> / 2" by linarith
  then show ?thesis by linarith
qed

lemma float_product_error:
  "\<bar>float_mul (to_double r) 100 - r * 100\<bar> \<le> \<bar>r * 100\<bar> / 2 ^ 51"
proof -
  define a where "a = to_double r"
  define s where "s = float_mul a 100"
  have 1: "\<bar>s - a * 100\<bar> \<le> \<bar>a * 100\<bar> / 2 ^ 53"
    unfolding s_def float_mul_def by (rule to_double_error)
  have 2: "\<bar>a - r\<bar> \<le> \<bar>r\<bar> / 2 ^ 53"
    unfolding a_def by (rule to_double_error)
  have 3: "\<bar>a\<bar> \<le> 2 * \<bar>r\<bar>"
    unfolding a_def using to_double_abs_bounds [of r] by simp
  have 4: "\<bar>a * 100\<bar> = 100 * \<bar>a\<bar>" "\<bar>r * 100\<bar> = 100 * \<bar>r\<bar>"
    by (simp_all add: abs_mult)
  have "s - r * 100 = (s - a * 100) + (a - r) * 100" by (simp add: algebra_simps)
  then have "\<bar>s - r * 100\<bar> \<le> \<bar>s - a * 100\<bar> + \<bar>(a - r) * 100\<bar>"
    by (simp only: abs_triangle_ineq)
  moreover have "\<bar>(a - r) * 100\<bar> = 100 * \<bar>a - r\<bar>"
    by (subst abs_mult) simp
  ultimately have 5: "\<bar>s - r * 100\<bar> \<le> \<bar>s - a * 100\<bar> + 100 * \<bar>a - r\<bar>"
    by (simp only:)
  have "\<bar>s - r * 100\<bar> \<le> 100 * \<bar>a\<bar> / 2 ^ 53 + 100 * (\<bar>r\<bar> / 2 ^ 53)"
    using 1 2 5 unfolding 4 by linarith
  also have "\<dots> \<le> 100 * (2 * \<bar>r\<bar>) / 2 ^ 53 + 100 * (\<bar>r\<bar> / 2 ^ 53)"
    using 3 by (intro add_right_mono divide_right_mono mult_left_mono) simp_all
  also have "\<dots> \<le> 100 * \<bar>r\<bar> / 2 ^ 51"
    by simp
  finally show ?thesis
    unfolding s_def a_def 4 .
qed

lemma to_double_0 [simp]: "to_double 0 = 0"
  by (simp add: to_double_def)

lemma pow2_neg: "(2::rat) powi (- int n) = 1 / 2 ^ n"
  by (simp add: power_int_minus_divide)

lemma exponent_normal:
  assumes "x \<noteq> 0" and "1 / 2 ^ 100 \<le> \<bar>x\<bar>" and "\<bar>x\<bar> < 2 ^ 100"
  shows "- 1022 \<le> exponent x \<and> exponent x \<le> 1023"
proof -
  have "(2::rat) powi (- 100) \<le> \<bar>x\<bar>" using assms(2) pow2_neg [of 100] by simp
  moreover have "\<bar>x\<bar> < 2 powi 100" using assms(3) by simp
  ultimately have "- 100 \<le> exponent x \<and> exponent x < 100"
    by (rule exponent_range [OF assms(1)])
  then show ?thesis by simp
qed

lemma quotient_bounds:
  fixes c t :: int
  assumes "0 < t" and "t < 2 ^ 63" and "c \<noteq> 0" and "\<bar>c\<bar> \<le> 2 ^ 63"
  shows "1 / 2 ^ 63 \<le> \<bar>rat_of_int c / rat_of_int t\<bar> \<and> \<bar>rat_of_int c / rat_of_int t\<bar> \<le> 2 ^ 63"
proof -
  have tr: "(0::rat) < of_int t" "rat_of_int t \<le> 2 ^ 63" "(1::rat) \<le> of_int t"
    using assms(1,2) by simp_all
  have "1 \<le> \<bar>c\<bar>" using assms(3) by simp
  then have "rat_of_int 1 \<le> of_int \<bar>c\<bar>" by (simp only: of_int_le_iff)
  then have cr1: "(1::rat) \<le> \<bar>of_int c\<bar>" by simp
  have "rat_of_int \<bar>c\<bar> \<le> of_int (2 ^ 63)" using assms(4) by (simp only: of_int_le_iff)
  then have cr2: "\<bar>rat_of_int c\<bar> \<le> 2 ^ 63" by simp
  have q: "\<bar>rat_of_int c / rat_of_int t\<bar> = \<bar>rat_of_int c\<bar> / rat_of_int t"
    using tr(1) by (simp add: abs_divide)
  have "1 / 2 ^ 63 \<le> 1 / rat_of_int t"
    using tr by (intro divide_left_mono) simp_all
  also have "\<dots> \<le> \<bar>rat_of_int c\<bar> / rat_of_int t"
    using cr1 tr(1) by (intro divide_right_mono) simp_all
  finally have lo: "1 / 2 ^ 63 \<le> \<bar>rat_of_int c\<bar> / rat_of_int t" .
  have "\<bar>rat_of_int c\<bar> / rat_of_int t \<le> \<bar>rat_of_int c\<bar> / 1"
    using tr(3) by (intro divide_left_mono) simp_all
  with cr2 have hi: "\<bar>rat_of_int c\<bar> / rat_of_int t \<le> 2 ^ 63" by simp
  from lo hi show ?thesis by (simp only: q)
qed

lemma sint64_bounds:
  fixes w :: "64 word"
  shows "sint w < 2 ^ 63" and "\<bar>sint w\<bar> \<le> 2 ^ 63"
  using sint_lt [of w] sint_ge [of w] by simp_all

text \<open>
  The operands of the three roundings: the quotient, the product and the decimal are 0 or
  have their exponent in the range of normal doubles.
\<close>

lemma normal_range_int:
  fixes c t :: int
  assumes "0 < t" and "t < 2 ^ 63" and "\<bar>c\<bar> \<le> 2 ^ 63"
  defines "r \<equiv> rat_of_int c / rat_of_int t"
  defines "m \<equiv> true_div c t * 100"
  defines "d \<equiv> decimal_round (float_mul (true_div c t) 100) 2"
  shows "(r = 0 \<or> (- 1022 \<le> exponent r \<and> exponent r \<le> 1023)) \<and>
         (m = 0 \<or> (- 1022 \<le> exponent m \<and> exponent m \<le> 1023)) \<and>
         (d = 0 \<or> (- 1022 \<le> exponent d \<and> exponent d \<le> 1023))"
proof (cases "c = 0")
  case True
  then show ?thesis
    by (simp add: r_def m_def d_def true_div_def float_mul_def decimal_round_def
        round_half_even_def)
next
  case False
  from quotient_bounds [OF assms(1,2) False assms(3)] have
    rb: "1 / 2 ^ 63 \<le> \<bar>r\<bar>" "\<bar>r\<bar> \<le> 2 ^ 63" by (simp_all add: r_def)
  then have r0: "r \<noteq> 0" by auto
  have a: "\<bar>r\<bar> / 2 \<le> \<bar>to_double r\<bar>" "\<bar>to_double r\<bar> \<le> 2 * \<bar>r\<bar>"
    using to_double_abs_bounds [of r] by simp_all
  have m: "m = to_double r * 100" by (simp add: m_def true_div_def r_def)
  then have mabs: "\<bar>m\<bar> = 100 * \<bar>to_double r\<bar>" by (simp add: abs_mult)
  have mb: "1 / 2 ^ 63 \<le> \<bar>m\<bar>" "\<bar>m\<bar> \<le> 200 * 2 ^ 63"
    using a rb unfolding mabs by linarith+
  then have m0: "m \<noteq> 0" by auto
  define s where "s = to_double m"
  have sb: "\<bar>s\<bar> \<le> 2 * \<bar>m\<bar>" unfolding s_def using to_double_abs_bounds [of m] by simp
  have d: "d = decimal_round s 2" by (simp add: d_def s_def float_mul_def m_def)
  have dc: "\<bar>d - s\<bar> \<le> 1 / 200" unfolding d using decimal_round_close [of s 2] by simp
  have dhi: "\<bar>d\<bar> < 2 ^ 100" using dc sb mb(2) by (simp add: abs_if split: if_splits) 
  have dlo: "1 / 2 ^ 100 \<le> \<bar>d\<bar>" if "d \<noteq> 0"
  proof -
    define k where "k = round_half_even (s * 10 ^ 2)"
    have dk: "d = of_int k / 100" by (simp add: d decimal_round_def k_def)
    with that have "k \<noteq> 0" by auto
    then have "1 \<le> \<bar>k\<bar>" by simp
    then have "rat_of_int 1 \<le> of_int \<bar>k\<bar>" by (simp only: of_int_le_iff)
    then have "(1::rat) \<le> \<bar>of_int k\<bar>" by simp
    then have "1 / 100 \<le> \<bar>d\<bar>" by (simp add: dk)
    then show ?thesis by simp
  qed
  have 1: "- 1022 \<le> exponent r \<and> exponent r \<le> 1023"
    using rb by (intro exponent_normal [OF r0]) simp_all
  have 2: "- 1022 \<le> exponent m \<and> exponent m \<le> 1023"
    using mb by (intro exponent_normal [OF m0]) simp_all
  have 3: "d = 0 \<or> (- 1022 \<le> exponent d \<and> exponent d \<le> 1023)"
    using dlo dhi exponent_normal [of d] by blast
  from 1 2 3 show ?thesis by simp
qed

lemma calculate_progress_in_double_range:
  fixes c t :: "64 word"
  assumes "0 < sint t"
  shows "let r = rat_of_int (sint c) / rat_of_int (sint t);
             m = true_div (sint c) (sint t) * 100;
             d = decimal_round (float_mul (true_div (sint c) (sint t)) 100) 2
         in (r = 0 \<or> (- 1022 \<le> exponent r \<and> exponent r \<le> 1023)) \<and>
            (m = 0 \<or> (- 1022 \<le> exponent m \<and> exponent m \<le> 1023)) \<and>
            (d = 0 \<or> (- 1022 \<le> exponent d \<and> exponent d \<le> 1023))"
  unfolding Let_def
  by (rule normal_range_int [OF assms sint64_bounds])

text \<open>
  The model against the interpreter: the doubles that \<^verbatim>\<open>1/3\<close>, \<^verbatim>\<open>(1/3)*100\<close>,
  \<^verbatim>\<open>round((1/3)*100, 2)\<close>, \<^verbatim>\<open>(7/25)*100\<close>, \<^verbatim>\<open>round((7/25)*100, 2)\<close>, \<^verbatim>\<open>(23/160)*100\<close>,
  \<^verbatim>\<open>round((23/160)*100, 2)\<close> and \<^verbatim>\<open>round((1/800)*100, 2)\<close> evaluate to, as
  \<^verbatim>\<open>float.as_integer_ratio\<close> gives them: 0.3333333333333333, 33.33333333333333, 33.33,
  28.000000000000004, 28.0, 14.374999999999998, 14.37 and 0.12.
\<close>

lemma double_arithmetic_examples:
  "true_div 1 3 = 6004799503160661 / 18014398509481984"
  "float_mul (true_div 1 3) 100 = 2345624805922133 / 70368744177664"
  "py_round (float_mul (true_div 1 3) 100) 2 = 2345390243441541 / 70368744177664"
  "float_mul (true_div 7 25) 100 = 7881299347898369 / 281474976710656"
  "py_round (float_mul (true_div 7 25) 100) 2 = 28"
  "float_mul (true_div 23 160) 100 = 8092405580431359 / 562949953421312"
  "py_round (float_mul (true_div 23 160) 100) 2 = 8089590830664253 / 562949953421312"
  "py_round (float_mul (true_div 1 800) 100) 2 = 1080863910568919 / 9007199254740992"
  by code_simp+

section \<open>ProgressTracking.calculate_progress\<close>

text \<open>
  C1, as amended.  When \<open>total_parameters > 0\<close>, \<open>calculate_progress\<close> stores the double
  \<open>(completed_parameters / total_parameters) * 100\<close>, a division and a multiplication in
  double precision, not rounded to 2 decimal places and within a relative error of
  \<open>2 ^ - 51\<close> of the exact percentage; otherwise it stores \<open>0.0\<close>.  The value \<open>to_dict\<close>
  reports under \<open>progress_percentage\<close> is \<^verbatim>\<open>round\<close> of the stored double to 2 places:
  the double nearest to a multiple of 0.01 that is within 0.005 of the stored value.
\<close>

theorem calculate_progress_percentage:
  "(0 < sint (total_parameters p) \<longrightarrow>
      progress_percentage (calculate_progress now p) =
        float_mul (true_div (sint (completed_parameters p)) (sint (total_parameters p))) 100 \<and>
      \<bar>progress_percentage (calculate_progress now p) -
         rat_of_int (sint (completed_parameters p)) / rat_of_int (sint (total_parameters p)) * 100\<bar>
        \<le> \<bar>rat_of_int (sint (completed_parameters p)) / rat_of_int (sint (total_parameters p)) * 100\<bar>
            / 2 ^ 51) \<and>
   (sint (total_parameters p) \<le> 0 \<longrightarrow> progress_percentage (calculate_progress now p) = 0) \<and>
   map_of (ProgressTracking_to_dict fmt program_name area_name (calculate_progress now p))
       ''progress_percentage'' =
     Some (PFloat (to_double (decimal_round (progress_percentage (calculate_progress now p)) 2))) \<and>
   (\<exists>k. decimal_round (progress_percentage (calculate_progress now p)) 2 = of_int k / 100) \<and>
   \<bar>decimal_round (progress_percentage (calculate_progress now p)) 2 -
      progress_percentage (calculate_progress now p)\<bar> \<le> 1 / 200"
proof -
  let ?c = "sint (completed_parameters p)" and ?t = "sint (total_parameters p)"
  have 1: "progress_percentage (calculate_progress now p) = float_mul (true_div ?c ?t) 100"
    if "0 < ?t"
    using that by (simp add: calculate_progress_def)
  have 2: "\<bar>float_mul (true_div ?c ?t) 100 - rat_of_int ?c / rat_of_int ?t * 100\<bar>
             \<le> \<bar>rat_of_int ?c / rat_of_int ?t * 100\<bar> / 2 ^ 51"
    unfolding true_div_def by (rule float_product_error)
  have 3: "progress_percentage (calculate_progress now p) = 0" if "?t \<le> 0"
    using that by (simp add: calculate_progress_def)
  have 4: "map_of (ProgressTracking_to_dict fmt program_name area_name (calculate_progress now p))
       ''progress_percentage'' =
     Some (PFloat (to_double (decimal_round (progress_percentage (calculate_progress now p)) 2)))"
    by (simp add: ProgressTracking_to_dict_def py_round_def)
  have 5: "\<exists>k. decimal_round x 2 = of_int k / 100" for x
    by (auto simp: decimal_round_def)
  have 6: "\<bar>decimal_round x 2 - x\<bar> \<le> 1 / 200" for x
    using decimal_round_close [of x 2] by simp
  show ?thesis
  proof (intro conjI impI)
    assume t: "0 < ?t"
    show "progress_percentage (calculate_progress now p) = float_mul (true_div ?c ?t) 100"
      by (rule 1 [OF t])
    show "\<bar>progress_percentage (calculate_progress now p) -
            rat_of_int ?c / rat_of_int ?t * 100\<bar>
          \<le> \<bar>rat_of_int ?c / rat_of_int ?t * 100\<bar> / 2 ^ 51"
      unfolding 1 [OF t] by (rule 2)
  next
    assume "?t \<le> 0"
    then show "progress_percentage (calculate_progress now p) = 0" by (rule 3)
  next
    show "map_of (ProgressTracking_to_dict fmt program_name area_name (calculate_progress now p))
       ''progress_percentage'' =
     Some (PFloat (to_double (decimal_round (progress_percentage (calculate_progress now p)) 2)))"
      by (rule 4)
    show "\<exists>k. decimal_round (progress_percentage (calculate_progress now p)) 2 =
               of_int k / 100"
      by (rule 5)
    show "\<bar>decimal_round (progress_percentage (calculate_progress now p)) 2 -
            progress_percentage (calculate_progress now p)\<bar> \<le> 1 / 200"
      by (rule 6)
  qed
qed

text \<open>
  The theorem at a row with 1 of 3 parameters completed, which stores 33.33333333333333
  and reports 33.33, and at the same row with no parameters, which stores 0.
\<close>

theorem calculate_progress_percentage_witness:
  "0 < sint (total_parameters ex_progress) \<and>
   progress_percentage (calculate_progress 80 ex_progress) = float_mul (true_div 1 3) 100 \<and>
   float_mul (true_div 1 3) 100 = 2345624805922133 / 70368744177664 \<and>
   map_of (ProgressTracking_to_dict (isoformat ex_env) PNone PNone (calculate_progress 80 ex_progress))
       ''progress_percentage'' =
     Some (PFloat (to_double (decimal_round (float_mul (true_div 1 3) 100) 2))) \<and>
   to_double (decimal_round (float_mul (true_div 1 3) 100) 2) =
     2345390243441541 / 70368744177664 \<and>
   sint (total_parameters (ex_progress\<lparr>total_parameters := 0\<rparr>)) \<le> 0 \<and>
   progress_percentage (calculate_progress 80 (ex_progress\<lparr>total_parameters := 0\<rparr>)) = 0"
proof -
  note th = calculate_progress_percentage [where now = 80 and p = ex_progress
      and fmt = "isoformat ex_env" and program_name = PNone and area_name = PNone]
  note th0 = calculate_progress_percentage [where now = 80
      and p = "ex_progress\<lparr>total_parameters := 0\<rparr>"
      and fmt = "isoformat ex_env" and program_name = PNone and area_name = PNone]
  have t: "0 < sint (total_parameters ex_progress)"
    and ct: "sint (completed_parameters ex_progress) = 1" "sint (total_parameters ex_progress) = 3"
    by (simp_all add: ex_progress_def)
  have z: "sint (total_parameters (ex_progress\<lparr>total_parameters := 0\<rparr>)) \<le> 0" by simp
  from th t have
    "progress_percentage (calculate_progress 80 ex_progress) =
       float_mul (true_div (sint (completed_parameters ex_progress))
                    (sint (total_parameters ex_progress))) 100"
    by blast
  then have a: "progress_percentage (calculate_progress 80 ex_progress) =
                  float_mul (true_div 1 3) 100"
    by (simp only: ct)
  from th have
    "map_of (ProgressTracking_to_dict (isoformat ex_env) PNone PNone
               (calculate_progress 80 ex_progress)) ''progress_percentage'' =
     Some (PFloat (to_double (decimal_round
       (progress_percentage (calculate_progress 80 ex_progress)) 2)))"
    by blast
  then have m: "map_of (ProgressTracking_to_dict (isoformat ex_env) PNone PNone
               (calculate_progress 80 ex_progress)) ''progress_percentage'' =
     Some (PFloat (to_double (decimal_round (float_mul (true_div 1 3) 100) 2)))"
    by (simp only: a)
  from th0 z have
    z': "progress_percentage (calculate_progress 80 (ex_progress\<lparr>total_parameters := 0\<rparr>)) = 0"
    by blast
  have v: "float_mul (true_div 1 3) 100 = 2345624805922133 / 70368744177664"
    "to_double (decimal_round (float_mul (true_div 1 3) 100) 2) =
       2345390243441541 / 70368744177664"
    by code_simp+
  from t a v(1) m v(2) z z' show ?thesis by blast
qed

text \<open>
  C1 as stated fails, for the stored value and for the reported one.  With 1 of 3
  parameters completed the exact percentage rounded to 2 places is 33.33; the stored
  \<open>progress_percentage\<close> is 33.33333333333333, which is neither 33.33 nor the double
  nearest to it.  With 23 of 160 the exact percentage is 14.375, which rounds to 14.38;
  the value \<open>to_dict\<close> reports is the double nearest to 14.37.
\<close>

theorem calculate_progress_not_rounded:
  "progress_percentage (calculate_progress 80 ex_progress) = 2345624805922133 / 70368744177664 \<and>
   decimal_round (rat_of_int (sint (completed_parameters ex_progress)) /
                  rat_of_int (sint (total_parameters ex_progress)) * 100) 2 = 3333 / 100 \<and>
   progress_percentage (calculate_progress 80 ex_progress) \<noteq> 3333 / 100 \<and>
   progress_percentage (calculate_progress 80 ex_progress) \<noteq> to_double (3333 / 100) \<and>
   map_of (ProgressTracking_to_dict (isoformat ex_env) PNone PNone
             (calculate_progress 80 ex_progress_tie)) ''progress_percentage'' =
     Some (PFloat (8089590830664253 / 562949953421312)) \<and>
   decimal_round (rat_of_int (sint (completed_parameters ex_progress_tie)) /
                  rat_of_int (sint (total_parameters ex_progress_tie)) * 100) 2 = 1438 / 100 \<and>
   (8089590830664253 / 562949953421312 :: rat) \<noteq> 1438 / 100 \<and>
   8089590830664253 / 562949953421312 \<noteq> to_double (1438 / 100) \<and>
   8089590830664253 / 562949953421312 = to_double (1437 / 100)"
  by code_simp

text \<open>
  C5, as amended.  A second run of \<open>calculate_progress\<close> changes nothing but
  \<open>last_updated\<close>, which takes the clock reading of that run: the counts and the
  percentage are those of one run.
\<close>

theorem calculate_progress_twice:
  "calculate_progress t2 (calculate_progress t1 p) =
   (calculate_progress t1 p)\<lparr>last_updated := Some t2\<rparr>"
  by (simp add: calculate_progress_def)

text \<open>The theorem at the example row, run at times 1 and 2.\<close>

theorem calculate_progress_twice_witness:
  "calculate_progress 2 (calculate_progress 1 ex_progress) =
   ex_progress\<lparr>progress_percentage := 2345624805922133 / 70368744177664,
                last_updated := Some 2\<rparr>"
proof -
  have "calculate_progress 1 ex_progress =
        ex_progress\<lparr>progress_percentage := 2345624805922133 / 70368744177664,
                     last_updated := Some 1\<rparr>"
    by code_simp
  then show ?thesis
    using calculate_progress_twice [where ?t2.0 = 2 and ?t1.0 = 1 and p = ex_progress]
    by simp
qed

text \<open>
  C5 as stated fails: run at time 1 and again at time 2, the record is not the record
  of the first run, and neither is its \<open>to_dict\<close>.
\<close>

theorem calculate_progress_twice_differs:
  "calculate_progress 2 (calculate_progress 1 ex_progress) \<noteq> calculate_progress 1 ex_progress \<and>
   ProgressTracking_to_dict (\<lambda>t. if t = 1 then ''T1'' else ''T2'') PNone PNone
       (calculate_progress 2 (calculate_progress 1 ex_progress)) \<noteq>
   ProgressTracking_to_dict (\<lambda>t. if t = 1 then ''T1'' else ''T2'') PNone PNone
       (calculate_progress 1 ex_progress)"
  by (simp add: calculate_progress_def ex_progress_def ProgressTracking_to_dict_def
      isoformat_or_None_def)

section \<open>User.to_dict\<close>

text \<open>
  C10.  \<open>User.to_dict\<close> has no key \<open>password_hash\<close> and no key
  \<open>password_reset_token\<close>, and two users that differ only in these two attributes have
  the same \<open>to_dict\<close>.
\<close>

theorem User_to_dict_hides_secrets:
  "User_to_dict fmt (u\<lparr>password_hash := h, password_reset_token := t\<rparr>) = User_to_dict fmt u \<and>
   ''password_hash'' \<notin> fst ` set (User_to_dict fmt u) \<and>
   ''password_reset_token'' \<notin> fst ` set (User_to_dict fmt u)"
  by (simp add: User_to_dict_def)

text \<open>The theorem at the example user, with another hash and a reset token.\<close>

theorem User_to_dict_hides_secrets_witness:
  "User_to_dict (isoformat ex_env)
     (ex_user\<lparr>password_hash := Some ''other'', password_reset_token := Some ''reset-me''\<rparr>) =
   User_to_dict (isoformat ex_env) ex_user \<and>
   map_of (User_to_dict (isoformat ex_env) ex_user) ''password_hash'' = None"
  using User_to_dict_hides_secrets [where fmt = "isoformat ex_env" and u = ex_user
      and h = "Some ''other''" and t = "Some ''reset-me''"]
  by (simp add: User_to_dict_def)

section \<open>register\<close>

lemma length_flush_users: "length (flush_users now old n us) = length us"
  by (induction us arbitrary: n) auto

lemma flush_users_new_row:
  "u_id u = None \<Longrightarrow> \<exists>m. flush_users now old n (xs @ [u]) ! length xs = insert_defaults now m u"
  by (induction xs arbitrary: n) auto

lemma is_admin_insert_defaults:
  "is_admin u = PBool False \<Longrightarrow> is_admin (insert_defaults now m u) = PBool False"
  by (simp add: insert_defaults_def)

lemma set_password_keeps:
  "set_password e pw u = Some u' \<Longrightarrow> is_admin u' = is_admin u \<and> u_id u' = u_id u"
  by (auto simp: set_password_def split: option.splits)

lemma commit_new_row:
  assumes "commit e (session_add u s) = Some s2" and "u_id u = None"
  shows "length (db s2) = Suc (length (uow s)) \<and> uow s2 = db s2 \<and>
         (\<exists>m. db s2 ! length (uow s) = insert_defaults (utcnow e) m u)"
proof -
  let ?rows = "flush_users (utcnow e) (db s) (next_id (map u_id (uow s @ [u]))) (uow s @ [u])"
  from assms(1) have s2: "s2 = \<lparr>db = ?rows, uow = ?rows\<rparr>"
    by (simp add: commit_def session_add_def Let_def split: if_splits)
  from flush_users_new_row [OF assms(2)] obtain m where
    "?rows ! length (uow s) = insert_defaults (utcnow e) m u" by blast
  with s2 show ?thesis by (auto simp: length_flush_users)
qed

lemma register_try_created:
  assumes "register_try e body s = (Some (b, 201), s')"
  shows "\<exists>u. is_admin u = PBool False \<and> u_id u = None \<and> commit e (session_add u s) = Some s' \<and>
     b = PDict [(''message'', PStr ''User registered successfully''),
                (''user'', PDict (User_to_dict (isoformat e) (uow s' ! length (uow s))))]"
  using assms unfolding register_try_def
  by (auto simp: Let_def error_body_def User_def dest!: set_password_keeps
      split: option.splits check.splits)

text \<open>
  C9.  When \<open>register\<close> answers 201, the table has one row more, the new row has
  \<open>is_admin = False\<close>, and the user the response shows is that row, whatever the
  request body holds under \<open>is_admin\<close> or any other key.
\<close>

theorem register_is_admin_False:
  assumes "register e body s = ((b, 201), s')"
  shows "length (db s') = Suc (length (uow s)) \<and>
         is_admin (db s' ! length (uow s)) = PBool False \<and>
         b = PDict [(''message'', PStr ''User registered successfully''),
                    (''user'', PDict (User_to_dict (isoformat e) (db s' ! length (uow s))))] \<and>
         map_of (User_to_dict (isoformat e) (db s' ! length (uow s))) ''is_admin'' =
           Some (PBool False)"
proof -
  from assms have "register_try e body s = (Some (b, 201), s')"
    by (auto simp: register_def internal_error_def split: prod.splits option.splits)
  from register_try_created [OF this] obtain u where
    u: "is_admin u = PBool False" "u_id u = None" "commit e (session_add u s) = Some s'"
    and b: "b = PDict [(''message'', PStr ''User registered successfully''),
                (''user'', PDict (User_to_dict (isoformat e) (uow s' ! length (uow s))))]"
    by blast
  from commit_new_row [OF u(3) u(2)] obtain m where
    m: "length (db s') = Suc (length (uow s))" "uow s' = db s'"
       "db s' ! length (uow s) = insert_defaults (utcnow e) m u" by blast
  have "is_admin (db s' ! length (uow s)) = PBool False"
    using m(3) is_admin_insert_defaults [OF u(1)] by simp
  then show ?thesis using m b by (simp add: User_to_dict_def)
qed

text \<open>
  The theorem at a request whose body has \<^verbatim>\<open>"is_admin": true\<close>: the answer is 201 and
  the row written has \<open>is_admin = False\<close>.
\<close>

theorem register_is_admin_False_witness:
  "py_get ex_body ''is_admin'' = Some (PBool True) \<and>
   snd (fst (register ex_env (Some ex_body) ex_empty_session)) = 201 \<and>
   length (db (snd (register ex_env (Some ex_body) ex_empty_session))) = 1 \<and>
   is_admin (db (snd (register ex_env (Some ex_body) ex_empty_session)) ! 0) = PBool False"
proof -
  let ?r = "register ex_env (Some ex_body) ex_empty_session"
  have c: "snd (fst ?r) = 201" by code_simp
  then have "?r = ((fst (fst ?r), 201), snd ?r)" by (simp add: prod_eq_iff)
  from register_is_admin_False [OF this] have
    "length (db (snd ?r)) = Suc (length (uow ex_empty_session))"
    "is_admin (db (snd ?r) ! length (uow ex_empty_session)) = PBool False" by simp_all
  moreover have "py_get ex_body ''is_admin'' = Some (PBool True)"
    by (simp add: py_get_def ex_body_def)
  ultimately show ?thesis using c by (simp add: ex_empty_session_def)
qed

section \<open>login and its siblings on a failed commit\<close>

lemma rollback_session_add: "rollback (session_add u s) = rollback s"
  by (simp add: rollback_def session_add_def)

lemma rollback_clean: "uow s = db s \<Longrightarrow> rollback s = s"
  by (cases s) (simp add: rollback_def)

lemma register_try_failure:
  assumes "register_try e body s = (r, s')" "r \<noteq> None \<longrightarrow> snd (the r) \<noteq> 201"
  shows "s' = s \<or> (\<exists>u. s' = session_add u s \<and> r = None)"
  using assms unfolding register_try_def Let_def
  by (auto split: option.splits check.splits)

text \<open>
  \<open>register\<close> that does not answer 201 leaves a session without pending changes as
  it was: what it added is rolled back.
\<close>

lemma register_failure_restores:
  assumes "uow s = db s" and "snd (fst (register e body s)) \<noteq> 201"
  shows "snd (register e body s) = s"
proof -
  obtain r s' where t: "register_try e body s = (r, s')" by (cases "register_try e body s")
  show ?thesis
  proof (cases r)
    case None
    with t register_try_failure [OF t] have "s' = s \<or> (\<exists>u. s' = session_add u s)" by auto
    then have "rollback s' = s"
      using rollback_clean [OF assms(1)] by (auto simp: rollback_session_add)
    with t None show ?thesis by (simp add: register_def)
  next
    case (Some a)
    with t assms(2) have "snd a \<noteq> 201" by (simp add: register_def)
    with t Some register_try_failure [OF t] have "s' = s" by auto
    with t Some show ?thesis by (simp add: register_def)
  qed
qed

lemma create_user_try_failure:
  assumes "create_user_try e body s = (r, s')" "r \<noteq> None \<longrightarrow> snd (the r) \<noteq> 201"
  shows "s' = s \<or> (\<exists>u. s' = session_add u s \<and> r = None)"
  using assms unfolding create_user_try_def Let_def
  by (auto split: option.splits check.splits)

text \<open>The same for \<open>create_user\<close>.\<close>

lemma create_user_failure_restores:
  assumes "uow s = db s" and "snd (fst (create_user e body s)) \<noteq> 201"
  shows "snd (create_user e body s) = s"
proof -
  obtain r s' where t: "create_user_try e body s = (r, s')"
    by (cases "create_user_try e body s")
  show ?thesis
  proof (cases r)
    case None
    with t create_user_try_failure [OF t] have "s' = s \<or> (\<exists>u. s' = session_add u s)" by auto
    then have "rollback s' = s"
      using rollback_clean [OF assms(1)] by (auto simp: rollback_session_add)
    with t None show ?thesis by (simp add: create_user_def)
  next
    case (Some a)
    with t assms(2) have "snd a \<noteq> 201" by (simp add: create_user_def)
    with t Some create_user_try_failure [OF t] have "s' = s" by auto
    with t Some show ?thesis by (simp add: create_user_def)
  qed
qed

text \<open>
  C6, at the input where the code departs from it.  A login with the right password for
  an active user, while the storage refuses the commit: \<open>login\<close> answers 500 and the
  session still holds the \<open>last_login\<close> it wrote, which the committed table does not
  have.  \<open>register\<close> on the same failure restores the session.
\<close>

theorem login_commit_failure_not_rolled_back:
  "login (ex_env\<lparr>commit_ok := False\<rparr>) (Some ex_body) ex_session =
     (internal_error, ex_session\<lparr>uow := [ex_user\<lparr>last_login := Some 1000\<rparr>]\<rparr>) \<and>
   uow (snd (login (ex_env\<lparr>commit_ok := False\<rparr>) (Some ex_body) ex_session)) \<noteq>
   db (snd (login (ex_env\<lparr>commit_ok := False\<rparr>) (Some ex_body) ex_session)) \<and>
   register (ex_env\<lparr>commit_ok := False\<rparr>) (Some ex_body) ex_empty_session =
     (internal_error, ex_empty_session)"
  by code_simp

section \<open>The delete cascade\<close>

lemma cascaded_refl: "cascaded st st"
  by (simp add: cascaded_def)

lemma parameter_submissions_mono:
  "set (submissions st2) \<subseteq> set (submissions st1) \<Longrightarrow> parameter_submissions st1 q = [] \<Longrightarrow>
   parameter_submissions st2 q = []"
  by (auto simp: parameter_submissions_def filter_empty_conv)

lemma area_parameters_mono:
  "set (parameters st2) \<subseteq> set (parameters st1) \<Longrightarrow> area_parameters st1 r = [] \<Longrightarrow>
   area_parameters st2 r = []"
  by (auto simp: area_parameters_def filter_empty_conv)

lemma program_areas_mono:
  "set (areas st2) \<subseteq> set (areas st1) \<Longrightarrow> program_areas st1 p = [] \<Longrightarrow>
   program_areas st2 p = []"
  by (auto simp: program_areas_def filter_empty_conv)

lemma cascaded_trans:
  assumes a: "cascaded st st1" and b: "cascaded st1 st2"
  shows "cascaded st st2"
proof -
  have s: "set (submissions st2) \<subseteq> set (submissions st1)" "set (submissions st1) \<subseteq> set (submissions st)"
    and q: "set (parameters st2) \<subseteq> set (parameters st1)" "set (parameters st1) \<subseteq> set (parameters st)"
    and r: "set (areas st2) \<subseteq> set (areas st1)" "set (areas st1) \<subseteq> set (areas st)"
    and p: "set (programs st2) \<subseteq> set (programs st1)" "set (programs st1) \<subseteq> set (programs st)"
    using a b by (simp_all add: cascaded_def)
  have 1: "parameter_submissions st2 x = []"
    if "x \<in> set (parameters st) - set (parameters st2)" for x
  proof (cases "x \<in> set (parameters st1)")
    case True
    with that b show ?thesis by (simp add: cascaded_def)
  next
    case False
    with that a have "parameter_submissions st1 x = []" by (simp add: cascaded_def)
    then show ?thesis by (rule parameter_submissions_mono [OF s(1)])
  qed
  have 2: "area_parameters st2 x = []"
    if "x \<in> set (areas st) - set (areas st2)" for x
  proof (cases "x \<in> set (areas st1)")
    case True
    with that b show ?thesis by (simp add: cascaded_def)
  next
    case False
    with that a have "area_parameters st1 x = []" by (simp add: cascaded_def)
    then show ?thesis by (rule area_parameters_mono [OF q(1)])
  qed
  have 3: "program_areas st2 x = []"
    if "x \<in> set (programs st) - set (programs st2)" for x
  proof (cases "x \<in> set (programs st1)")
    case True
    with that b show ?thesis by (simp add: cascaded_def)
  next
    case False
    with that a have "program_areas st1 x = []" by (simp add: cascaded_def)
    then show ?thesis by (rule program_areas_mono [OF r(1)])
  qed
  have "set (submissions st2) \<subseteq> set (submissions st)" using s by (rule subset_trans)
  moreover have "set (parameters st2) \<subseteq> set (parameters st)" using q by (rule subset_trans)
  moreover have "set (areas st2) \<subseteq> set (areas st)" using r by (rule subset_trans)
  moreover have "set (programs st2) \<subseteq> set (programs st)" using p by (rule subset_trans)
  ultimately show ?thesis using 1 2 3 unfolding cascaded_def by blast
qed

lemma cascaded_fold:
  assumes "\<And>x st. cascaded st (f x st)"
  shows "cascaded st (fold f xs st)"
proof (induction xs arbitrary: st)
  case Nil
  show ?case by (simp add: cascaded_refl)
next
  case (Cons x xs)
  show ?case using cascaded_trans [OF assms [of st x] Cons.IH [of "f x st"]] by simp
qed

lemma fold_frame:
  assumes "\<And>x st. T (f x st) = T st"
  shows "T (fold f xs st) = T st"
  by (induction xs arbitrary: st) (simp_all add: assms)

lemma filter_removeAll_notin:
  "filter (\<lambda>y. y \<notin> set xs) (removeAll x ys) = filter (\<lambda>y. y \<notin> set (x # xs)) ys"
  by (induction ys) auto

lemma fold_removeAll:
  assumes "\<And>x st. T (f x st) = removeAll x (T st)"
  shows "T (fold f xs st) = filter (\<lambda>y. y \<notin> set xs) (T st)"
proof (induction xs arbitrary: st)
  case Nil
  show ?case by simp
next
  case (Cons x xs)
  have "T (fold f (x # xs) st) = filter (\<lambda>y. y \<notin> set xs) (removeAll x (T st))"
    by (simp add: Cons.IH assms)
  then show ?case by (simp only: filter_removeAll_notin)
qed

lemma delete_submission_frame:
  "submissions (delete_submission x st) = removeAll x (submissions st)"
  "parameters (delete_submission x st) = parameters st"
  "areas (delete_submission x st) = areas st"
  "programs (delete_submission x st) = programs st"
  by (simp_all add: delete_submission_def)

lemma cascaded_leaf:
  assumes "set (submissions st') \<subseteq> set (submissions st)" "parameters st' = parameters st"
    "areas st' = areas st" "programs st' = programs st"
  shows "cascaded st st'"
  using assms by (simp add: cascaded_def)

lemma cascaded_delete_submission: "cascaded st (delete_submission x st)"
  by (rule cascaded_leaf) (auto simp: delete_submission_frame)

lemma fold_delete_submission_frame:
  "submissions (fold delete_submission xs st) = filter (\<lambda>y. y \<notin> set xs) (submissions st)"
  "parameters (fold delete_submission xs st) = parameters st"
  "areas (fold delete_submission xs st) = areas st"
  "programs (fold delete_submission xs st) = programs st"
     apply (rule fold_removeAll [where T = submissions], rule delete_submission_frame)
    apply (rule fold_frame [where T = parameters], rule delete_submission_frame)
   apply (rule fold_frame [where T = areas], rule delete_submission_frame)
  apply (rule fold_frame [where T = programs], rule delete_submission_frame)
  done

lemma no_children_after_filter:
  "filter P (filter (\<lambda>y. y \<notin> set (filter P ys)) ys) = []"
  by (induction ys) auto

lemma cascaded_remove_parameter:
  assumes "parameter_submissions st q = []"
  shows "cascaded st (st\<lparr>parameters := removeAll q (parameters st)\<rparr>)"
  using assms
  by (auto simp: cascaded_def parameter_submissions_def area_parameters_def program_areas_def)

lemma delete_parameter_frame:
  "parameters (delete_parameter q st) = removeAll q (parameters st)"
  "areas (delete_parameter q st) = areas st"
  "programs (delete_parameter q st) = programs st"
  by (simp_all add: delete_parameter_def Let_def fold_delete_submission_frame)

lemma cascaded_delete_parameter: "cascaded st (delete_parameter q st)"
proof -
  let ?st1 = "fold delete_submission (parameter_submissions st q) st"
  have 1: "cascaded st ?st1"
    by (rule cascaded_fold) (rule cascaded_delete_submission)
  have "parameter_submissions ?st1 q = []"
    unfolding parameter_submissions_def fold_delete_submission_frame
    by (rule no_children_after_filter)
  then have "cascaded ?st1 (?st1\<lparr>parameters := removeAll q (parameters ?st1)\<rparr>)"
    by (rule cascaded_remove_parameter)
  with 1 show ?thesis
    unfolding delete_parameter_def Let_def by (rule cascaded_trans)
qed

lemma fold_delete_parameter_frame:
  "parameters (fold delete_parameter qs st) = filter (\<lambda>y. y \<notin> set qs) (parameters st)"
  "areas (fold delete_parameter qs st) = areas st"
  "programs (fold delete_parameter qs st) = programs st"
    apply (rule fold_removeAll [where T = parameters], rule delete_parameter_frame)
   apply (rule fold_frame [where T = areas], rule delete_parameter_frame)
  apply (rule fold_frame [where T = programs], rule delete_parameter_frame)
  done

lemma delete_progress_tracking_frame:
  "submissions (delete_progress_tracking t st) = submissions st"
  "parameters (delete_progress_tracking t st) = parameters st"
  "areas (delete_progress_tracking t st) = areas st"
  "programs (delete_progress_tracking t st) = programs st"
  by (simp_all add: delete_progress_tracking_def)

lemma fold_delete_progress_tracking_frame:
  "submissions (fold delete_progress_tracking ts st) = submissions st"
  "parameters (fold delete_progress_tracking ts st) = parameters st"
  "areas (fold delete_progress_tracking ts st) = areas st"
  "programs (fold delete_progress_tracking ts st) = programs st"
     apply (rule fold_frame [where T = submissions], rule delete_progress_tracking_frame)
    apply (rule fold_frame [where T = parameters], rule delete_progress_tracking_frame)
   apply (rule fold_frame [where T = areas], rule delete_progress_tracking_frame)
  apply (rule fold_frame [where T = programs], rule delete_progress_tracking_frame)
  done

lemma cascaded_fold_delete_progress_tracking:
  "cascaded st (fold delete_progress_tracking ts st)"
  by (rule cascaded_leaf) (simp_all add: fold_delete_progress_tracking_frame)

lemma cascaded_remove_area:
  assumes "area_parameters st r = []"
  shows "cascaded st (st\<lparr>notifications := ns, areas := removeAll r (areas st)\<rparr>)"
  using assms
  by (auto simp: cascaded_def parameter_submissions_def area_parameters_def program_areas_def)

lemma delete_area_frame:
  "areas (delete_area r st) = removeAll r (areas st)"
  "programs (delete_area r st) = programs st"
  by (simp_all add: delete_area_def Let_def fold_delete_parameter_frame
      fold_delete_progress_tracking_frame)

lemma cascaded_delete_area: "cascaded st (delete_area r st)"
proof -
  let ?st1 = "fold delete_parameter (area_parameters st r) st"
  let ?st2 = "fold delete_progress_tracking (area_progress_tracking ?st1 r) ?st1"
  have 1: "cascaded st ?st1"
    by (rule cascaded_fold) (rule cascaded_delete_parameter)
  have 2: "cascaded ?st1 ?st2"
    by (rule cascaded_fold_delete_progress_tracking)
  have "area_parameters ?st2 r = []"
    unfolding area_parameters_def fold_delete_progress_tracking_frame fold_delete_parameter_frame
    by (rule no_children_after_filter)
  then have 3: "cascaded ?st2 (?st2\<lparr>notifications :=
      map (\<lambda>n. if refers (related_area_id n) (ar_id r) then n\<lparr>related_area_id := None\<rparr> else n)
        (notifications ?st2), areas := removeAll r (areas ?st2)\<rparr>)"
    by (rule cascaded_remove_area)
  show ?thesis
    unfolding delete_area_def Let_def
    by (rule cascaded_trans [OF cascaded_trans [OF 1 2] 3])
qed

lemma fold_delete_area_frame:
  "areas (fold delete_area rs st) = filter (\<lambda>y. y \<notin> set rs) (areas st)"
  "programs (fold delete_area rs st) = programs st"
   apply (rule fold_removeAll [where T = areas], rule delete_area_frame)
  apply (rule fold_frame [where T = programs], rule delete_area_frame)
  done

lemma cascaded_remove_program:
  assumes "program_areas st p = []"
  shows "cascaded st (st\<lparr>programs := removeAll p (programs st)\<rparr>)"
  using assms
  by (auto simp: cascaded_def parameter_submissions_def area_parameters_def program_areas_def)

lemma delete_program_frame:
  "programs (delete_program p st) = removeAll p (programs st)"
  by (simp add: delete_program_def Let_def fold_delete_area_frame
      fold_delete_progress_tracking_frame)

lemma cascaded_delete_program: "cascaded st (delete_program p st)"
proof -
  let ?st1 = "fold delete_area (program_areas st p) st"
  let ?st2 = "fold delete_progress_tracking (program_progress_tracking ?st1 p) ?st1"
  have 1: "cascaded st ?st1"
    by (rule cascaded_fold) (rule cascaded_delete_area)
  have 2: "cascaded ?st1 ?st2"
    by (rule cascaded_fold_delete_progress_tracking)
  have "program_areas ?st2 p = []"
    unfolding program_areas_def fold_delete_progress_tracking_frame fold_delete_area_frame
    by (rule no_children_after_filter)
  then have 3: "cascaded ?st2 (?st2\<lparr>programs := removeAll p (programs ?st2)\<rparr>)"
    by (rule cascaded_remove_program)
  show ?thesis
    unfolding delete_program_def Let_def
    by (rule cascaded_trans [OF cascaded_trans [OF 1 2] 3])
qed

lemma fold_delete_program_frame:
  "programs (fold delete_program ps st) = filter (\<lambda>y. y \<notin> set ps) (programs st)"
  by (rule fold_removeAll [where T = programs], rule delete_program_frame)

lemma delete_accreditation_member_frame:
  "submissions (delete_accreditation_member m st) = submissions st"
  "parameters (delete_accreditation_member m st) = parameters st"
  "areas (delete_accreditation_member m st) = areas st"
  "programs (delete_accreditation_member m st) = programs st"
  by (simp_all add: delete_accreditation_member_def)

lemma fold_delete_accreditation_member_frame:
  "submissions (fold delete_accreditation_member ms st) = submissions st"
  "parameters (fold delete_accreditation_member ms st) = parameters st"
  "areas (fold delete_accreditation_member ms st) = areas st"
  "programs (fold delete_accreditation_member ms st) = programs st"
     apply (rule fold_frame [where T = submissions], rule delete_accreditation_member_frame)
    apply (rule fold_frame [where T = parameters], rule delete_accreditation_member_frame)
   apply (rule fold_frame [where T = areas], rule delete_accreditation_member_frame)
  apply (rule fold_frame [where T = programs], rule delete_accreditation_member_frame)
  done

lemma delete_accreditation_tables:
  "submissions (delete_accreditation a st) =
     submissions (fold delete_program (accreditation_programs st a) st)"
  "parameters (delete_accreditation a st) =
     parameters (fold delete_program (accreditation_programs st a) st)"
  "areas (delete_accreditation a st) =
     areas (fold delete_program (accreditation_programs st a) st)"
  "programs (delete_accreditation a st) =
     filter (\<lambda>y. y \<notin> set (accreditation_programs st a)) (programs st)"
  by (simp_all add: delete_accreditation_def Let_def fold_delete_accreditation_member_frame
      fold_delete_program_frame)

lemma cascaded_delete_accreditation: "cascaded st (delete_accreditation a st)"
proof -
  let ?st1 = "fold delete_program (accreditation_programs st a) st"
  have 1: "cascaded st ?st1"
    by (rule cascaded_fold) (rule cascaded_delete_program)
  have "cascaded ?st1 (delete_accreditation a st)"
    by (rule cascaded_leaf) (simp_all add: delete_accreditation_tables fold_delete_program_frame)
  with 1 show ?thesis by (rule cascaded_trans)
qed

lemma accreditation_programs_deleted:
  "accreditation_programs (delete_accreditation a st) a = []"
  unfolding accreditation_programs_def delete_accreditation_tables
  by (rule no_children_after_filter)

text \<open>
  C7.  After \<open>delete_accreditation a\<close> no Program refers to \<open>a\<close>; every Program that
  belonged to \<open>a\<close> is gone and no Area refers to it; every Area of such a Program is gone
  and no Parameter refers to it; every Parameter of such an Area is gone and no
  Submission refers to it; every Submission of such a Parameter is gone.
\<close>

theorem delete_accreditation_cascades:
  "accreditation_programs (delete_accreditation a st) a = [] \<and>
   (\<forall>p \<in> set (accreditation_programs st a).
      p \<notin> set (programs (delete_accreditation a st)) \<and>
      program_areas (delete_accreditation a st) p = [] \<and>
      (\<forall>r \<in> set (program_areas st p).
         r \<notin> set (areas (delete_accreditation a st)) \<and>
         area_parameters (delete_accreditation a st) r = [] \<and>
         (\<forall>q \<in> set (area_parameters st r).
            q \<notin> set (parameters (delete_accreditation a st)) \<and>
            parameter_submissions (delete_accreditation a st) q = [] \<and>
            (\<forall>x \<in> set (parameter_submissions st q).
               x \<notin> set (submissions (delete_accreditation a st))))))"
proof -
  let ?st' = "delete_accreditation a st"
  have c: "cascaded st ?st'" by (rule cascaded_delete_accreditation)
  have 0: "accreditation_programs ?st' a = []" by (rule accreditation_programs_deleted)
  have P: "p \<notin> set (programs ?st')" "program_areas ?st' p = []"
    if "p \<in> set (accreditation_programs st a)" for p
  proof -
    show "p \<notin> set (programs ?st')"
      using that 0 by (auto simp: accreditation_programs_def filter_empty_conv)
    with that c show "program_areas ?st' p = []"
      by (simp add: cascaded_def accreditation_programs_def)
  qed
  have R: "r \<notin> set (areas ?st')" "area_parameters ?st' r = []"
    if "p \<in> set (accreditation_programs st a)" "r \<in> set (program_areas st p)" for p r
  proof -
    show "r \<notin> set (areas ?st')"
      using that P(2) [OF that(1)] by (auto simp: program_areas_def filter_empty_conv)
    with that c show "area_parameters ?st' r = []"
      by (simp add: cascaded_def program_areas_def)
  qed
  have Q: "q \<notin> set (parameters ?st')" "parameter_submissions ?st' q = []"
    if "p \<in> set (accreditation_programs st a)" "r \<in> set (program_areas st p)"
      "q \<in> set (area_parameters st r)" for p r q
  proof -
    show "q \<notin> set (parameters ?st')"
      using that R(2) [OF that(1,2)] by (auto simp: area_parameters_def filter_empty_conv)
    with that c show "parameter_submissions ?st' q = []"
      by (simp add: cascaded_def area_parameters_def)
  qed
  have X: "x \<notin> set (submissions ?st')"
    if "p \<in> set (accreditation_programs st a)" "r \<in> set (program_areas st p)"
      "q \<in> set (area_parameters st r)" "x \<in> set (parameter_submissions st q)" for p r q x
    using that(4) Q(2) [OF that(1,2,3)] by (auto simp: parameter_submissions_def filter_empty_conv)
  show ?thesis using 0 P R Q X by blast
qed

text \<open>
  The theorem at the example store: the first accreditation owns a program, an area, a
  parameter and a submission, which all go; the rows of the second accreditation stay.
\<close>

theorem delete_accreditation_cascades_witness:
  "ex_program 1 1 \<in> set (accreditation_programs ex_store (ex_accreditation 1)) \<and>
   ex_area 1 1 \<in> set (program_areas ex_store (ex_program 1 1)) \<and>
   ex_parameter 1 1 \<in> set (area_parameters ex_store (ex_area 1 1)) \<and>
   ex_submission 1 1 STATUS_APPROVED_BY_CHAIR
     \<in> set (parameter_submissions ex_store (ex_parameter 1 1)) \<and>
   ex_program 1 1 \<notin> set (programs (delete_accreditation (ex_accreditation 1) ex_store)) \<and>
   ex_area 1 1 \<notin> set (areas (delete_accreditation (ex_accreditation 1) ex_store)) \<and>
   ex_parameter 1 1 \<notin> set (parameters (delete_accreditation (ex_accreditation 1) ex_store)) \<and>
   ex_submission 1 1 STATUS_APPROVED_BY_CHAIR
     \<notin> set (submissions (delete_accreditation (ex_accreditation 1) ex_store)) \<and>
   submissions (delete_accreditation (ex_accreditation 1) ex_store) =
     [ex_submission 2 2 STATUS_PENDING] \<and>
   programs (delete_accreditation (ex_accreditation 1) ex_store) = [ex_program 2 2]"
proof -
  have p: "ex_program 1 1 \<in> set (accreditation_programs ex_store (ex_accreditation 1))"
    by code_simp
  have r: "ex_area 1 1 \<in> set (program_areas ex_store (ex_program 1 1))"
    by code_simp
  have q: "ex_parameter 1 1 \<in> set (area_parameters ex_store (ex_area 1 1))"
    by code_simp
  have x: "ex_submission 1 1 STATUS_APPROVED_BY_CHAIR
             \<in> set (parameter_submissions ex_store (ex_parameter 1 1))"
    by code_simp
  have rest: "submissions (delete_accreditation (ex_accreditation 1) ex_store) =
                [ex_submission 2 2 STATUS_PENDING]"
    "programs (delete_accreditation (ex_accreditation 1) ex_store) = [ex_program 2 2]"
    by code_simp+
  show ?thesis
    using delete_accreditation_cascades [of "ex_accreditation 1" ex_store] p r q x rest
    by blast
qed

section \<open>AccreditationMember: one row per pair\<close>

text \<open>
  C8.  An INSERT into \<open>accreditation_members\<close> keeps the (accreditation_id, user_id)
  pairs of the table distinct, and the INSERT of a row whose pair a row of the table
  already has is rejected.
\<close>

theorem accreditation_member_unique:
  "(distinct (member_pairs st) \<and> insert_accreditation_member b now st m = Some st'
      \<longrightarrow> distinct (member_pairs st')) \<and>
   ((\<exists>x \<in> set (members st). mem_accreditation_id x = mem_accreditation_id m \<and>
                              mem_user_id x = mem_user_id m)
      \<longrightarrow> insert_accreditation_member b now st m = None)"
  unfolding insert_accreditation_member_def member_pairs_def Let_def
  by (auto simp: image_iff split: if_splits)

text \<open>
  The theorem at the example store, which has a membership of user 2 in accreditation 1:
  a second membership of the same pair is rejected, one of user 1 is accepted and the
  pairs stay distinct.
\<close>

theorem accreditation_member_unique_witness:
  "distinct (member_pairs ex_store) \<and>
   insert_accreditation_member ex_backend 80 ex_store (ex_new_member 1 2) = None \<and>
   (\<exists>st'. insert_accreditation_member ex_backend 80 ex_store (ex_new_member 1 1) = Some st' \<and>
          length (members st') = 2 \<and> distinct (member_pairs st'))"
proof -
  have d: "distinct (member_pairs ex_store)" by code_simp
  have dup: "\<exists>x \<in> set (members ex_store).
      mem_accreditation_id x = mem_accreditation_id (ex_new_member 1 2) \<and>
      mem_user_id x = mem_user_id (ex_new_member 1 2)"
    by (simp add: ex_store_def ex_member_def ex_new_member_def)
  have 1: "insert_accreditation_member ex_backend 80 ex_store (ex_new_member 1 2) = None"
    using accreditation_member_unique [where st = ex_store and m = "ex_new_member 1 2"
        and b = ex_backend and now = 80] dup by blast
  have "insert_accreditation_member ex_backend 80 ex_store (ex_new_member 1 1) \<noteq> None"
    by code_simp
  then obtain st' where
    st': "insert_accreditation_member ex_backend 80 ex_store (ex_new_member 1 1) = Some st'"
    by blast
  then have "length (members st') = 2"
    by (auto simp: insert_accreditation_member_def Let_def ex_store_def split: if_splits)
  moreover have "distinct (member_pairs st')"
    using accreditation_member_unique [where st = ex_store and m = "ex_new_member 1 1"
        and b = ex_backend and now = 80 and st' = st'] d st' by blast
  ultimately show ?thesis using d 1 st' by blast
qed

section \<open>Submission versions\<close>

lemma fold_max_ge: "(v::int) \<in> set (v0 # vs) \<Longrightarrow> v \<le> fold max vs v0"
proof -
  assume "v \<in> set (v0 # vs)"
  then have "v \<le> Max (set (v0 # vs))" by (intro Max_ge) simp_all
  then show ?thesis by (simp only: Max.set_eq_fold)
qed

lemma next_version_greater:
  assumes "x \<in> set (submissions st)" "parameter_id x = Some pid" "version x = Some v"
  shows "v < next_version st pid"
proof -
  let ?vs = "List.map_filter version (filter (\<lambda>x. parameter_id x = Some pid) (submissions st))"
  from assms have v: "v \<in> set ?vs"
    by (force simp: map_filter_def)
  then obtain v0 vs where vs: "?vs = v0 # vs" by (cases ?vs) auto
  with v have "v \<le> fold max vs v0" using fold_max_ge [of v v0 vs] by simp
  with vs show ?thesis by (simp add: next_version_def)
qed

lemma insert_submission_row:
  assumes "insert_submission b now st x = Some st'" "version x = Some n"
  shows "\<exists>row. submissions st' = submissions st @ [row] \<and> parameter_id row = parameter_id x \<and>
               version row = Some n \<and> status row = default_to STATUS_PENDING (status x)"
  using assms unfolding insert_submission_def Let_def
  by (auto simp: default_to_def split: if_splits)

lemma next_version_fresh:
  "(Some pid, Some (next_version st pid)) \<notin> set (version_keys st)"
proof
  assume "(Some pid, Some (next_version st pid)) \<in> set (version_keys st)"
  then obtain y where "y \<in> set (submissions st)" "parameter_id y = Some pid"
    "version y = Some (next_version st pid)"
    by (auto simp: version_keys_def)
  from next_version_greater [OF this] show False by simp
qed

text \<open>
  What the INSERT does with a version: it never looks at it to accept or reject a row,
  it stores the one it is given, and it gives 1 to a row that has none.
\<close>

lemma insert_submission_ignores_version:
  "(insert_submission b now st (x\<lparr>version := v\<rparr>) = None) =
   (insert_submission b now st (x\<lparr>version := w\<rparr>) = None)"
  by (auto simp: insert_submission_def Let_def)

lemma insert_submission_default_version:
  assumes "insert_submission b now st x = Some st'" and "version x = None"
  shows "\<exists>row. submissions st' = submissions st @ [row] \<and> version row = Some 1"
  using assms unfolding insert_submission_def Let_def
  by (auto simp: default_to_def split: if_splits)

text \<open>
  C4, at the input where the code departs from it.  Parameter 1 of the example store has
  a submission at version 1.  A Submission of parameter 1 inserted without a version is
  accepted, by a storage engine that checks foreign keys and enum values, and stored at
  version 1: two rows have the pair (1, 1).  The class has no
  \<^verbatim>\<open>UniqueConstraint('parameter_id', 'version')\<close>, where \<open>AccreditationMember\<close> declares
  the one on its pair.
\<close>

theorem insert_submission_duplicate_version:
  "insert_submission ex_backend 80 ex_store (ex_new_submission None) =
     Some (ex_store\<lparr>submissions := submissions ex_store @
       [(ex_new_submission None)\<lparr>sub_id := Some 3, status := Some STATUS_PENDING,
          submitted_at := Some 80, version := Some 1\<rparr>]\<rparr>) \<and>
   version_keys (the (insert_submission ex_backend 80 ex_store (ex_new_submission None))) =
     [(Some 1, Some 1), (Some 2, Some 1), (Some 1, Some 1)] \<and>
   \<not> distinct
       (version_keys (the (insert_submission ex_backend 80 ex_store (ex_new_submission None))))"
  by code_simp

section \<open>Submit and Review as admin\<close>

lemma notify_submissions: "submissions (notify now rc ty wording sid aid st) = submissions st"
  by (simp add: notify_def split: option.splits)

lemma recompute_owning_submissions: "submissions (recompute_owning now st x) = submissions st"
  by (simp add: recompute_owning_def)

lemma find_map_update:
  assumes "\<And>y. k (g y) = k y"
  shows "find (\<lambda>y. k y = i) (map (\<lambda>y. if k y = i then g y else y) xs) =
         map_option g (find (\<lambda>y. k y = i) xs)"
  by (induction xs) (simp_all add: assms)

text \<open>
  C2.  On a Submission whose status is not approved_by_chair, Review as admin fails and
  returns the store as it was, with ConflictError when the caller is an administrator;
  on one whose status is approved_by_chair, an administrator's review succeeds and the
  Submission has status approved_by_admin or rejected_by_admin after the decision, the
  caller as reviewer, the time of the review and the comments.
\<close>

theorem review_admin_transition:
  assumes "find (\<lambda>y. sub_id y = Some sid) (submissions st) = Some x"
  shows "(status x \<noteq> Some STATUS_APPROVED_BY_CHAIR \<longrightarrow>
            snd (review_admin now wording st c sid d cm) = st \<and>
            fst (review_admin now wording st c sid d cm) \<noteq> None \<and>
            (caller_is_admin c \<longrightarrow>
               fst (review_admin now wording st c sid d cm) = Some ConflictError)) \<and>
         (status x = Some STATUS_APPROVED_BY_CHAIR \<and> caller_is_admin c \<longrightarrow>
            fst (review_admin now wording st c sid d cm) = None \<and>
            find (\<lambda>y. sub_id y = Some sid)
                (submissions (snd (review_admin now wording st c sid d cm))) =
              Some (x\<lparr>status := Some (case d of Approve \<Rightarrow> STATUS_APPROVED_BY_ADMIN
                                             | Reject \<Rightarrow> STATUS_REJECTED_BY_ADMIN),
                      reviewed_at := Some now, reviewed_by := Some (caller_id c),
                      comments := cm\<rparr>))"
proof -
  have "find (\<lambda>y. sub_id y = Some sid)
          (map (\<lambda>y. if sub_id y = Some sid
                     then y\<lparr>status := Some s', reviewed_at := Some now,
                            reviewed_by := Some (caller_id c), comments := cm\<rparr> else y)
             (submissions st)) =
        Some (x\<lparr>status := Some s', reviewed_at := Some now,
                reviewed_by := Some (caller_id c), comments := cm\<rparr>)" for s'
    using find_map_update [where k = sub_id and i = "Some sid"
        and g = "\<lambda>y. y\<lparr>status := Some s', reviewed_at := Some now,
                            reviewed_by := Some (caller_id c), comments := cm\<rparr>"
        and xs = "submissions st"]
      assms by simp
  then show ?thesis
    using assms unfolding review_admin_def Let_def
    by (cases d) (simp_all add: notify_submissions recompute_owning_submissions)
qed

text \<open>
  The theorem at the example store: the review of submission 2, which is pending, fails
  with ConflictError and changes nothing; the approval of submission 1, which the chair
  approved, makes it approved_by_admin, reviewed by the caller at the time of the call.
\<close>

theorem review_admin_transition_witness:
  "fst (review_admin 90 ex_wording ex_store ex_admin 2 Approve None) = Some ConflictError \<and>
   snd (review_admin 90 ex_wording ex_store ex_admin 2 Approve None) = ex_store \<and>
   fst (review_admin 90 ex_wording ex_store ex_admin 1 Approve (Some ''complete'')) = None \<and>
   find (\<lambda>y. sub_id y = Some 1)
       (submissions (snd (review_admin 90 ex_wording ex_store ex_admin 1 Approve (Some ''complete'')))) =
     Some ((ex_submission 1 1 STATUS_APPROVED_BY_CHAIR)
             \<lparr>status := Some STATUS_APPROVED_BY_ADMIN, reviewed_at := Some 90,
              reviewed_by := Some 1, comments := Some ''complete''\<rparr>)"
proof -
  have f2: "find (\<lambda>y. sub_id y = Some 2) (submissions ex_store) =
              Some (ex_submission 2 2 STATUS_PENDING)"
    by (simp add: ex_store_def ex_submission_def)
  have f1: "find (\<lambda>y. sub_id y = Some 1) (submissions ex_store) =
              Some (ex_submission 1 1 STATUS_APPROVED_BY_CHAIR)"
    by (simp add: ex_store_def ex_submission_def)
  have s2: "status (ex_submission 2 2 STATUS_PENDING) \<noteq> Some STATUS_APPROVED_BY_CHAIR"
    by (simp add: ex_submission_def STATUS_PENDING_def STATUS_APPROVED_BY_CHAIR_def)
  have s1: "status (ex_submission 1 1 STATUS_APPROVED_BY_CHAIR) = Some STATUS_APPROVED_BY_CHAIR"
    by (simp add: ex_submission_def)
  have a: "caller_is_admin ex_admin" "caller_id ex_admin = 1"
    by (simp_all add: ex_admin_def)
  show ?thesis
    using review_admin_transition [OF f2, where now = 90 and wording = ex_wording and c = ex_admin
        and d = Approve and cm = None]
      review_admin_transition [OF f1, where now = 90 and wording = ex_wording and c = ex_admin
        and d = Approve and cm = "Some ''complete''"]
      s1 s2 a
    by simp
qed

text \<open>
  C3.  A Submit whose payload supplies neither a file reference with a type of
  \<open>FILE_TYPES\<close> nor a website link returns ValidationError and the store as it was; the
  table \<open>submissions\<close> changes only when the payload supplies one of the two; and a
  Submit that returns an error returns the store as it was.
\<close>

theorem submit_requires_payload:
  "(\<not> supplies_file pl \<and> \<not> supplies_link pl \<longrightarrow>
      submit b now wording st pid u pl = (Some ValidationError, st)) \<and>
   (submissions (snd (submit b now wording st pid u pl)) \<noteq> submissions st \<longrightarrow>
      supplies_file pl \<or> supplies_link pl) \<and>
   (fst (submit b now wording st pid u pl) \<noteq> None \<longrightarrow> snd (submit b now wording st pid u pl) = st)"
  unfolding submit_def Let_def
  by (auto split: option.splits)

text \<open>
  The theorem at the example store: the empty payload is refused with ValidationError
  and no row is created; a payload with a website link creates one row.
\<close>

theorem submit_requires_payload_witness:
  "\<not> supplies_file ex_empty_payload \<and> \<not> supplies_link ex_empty_payload \<and>
   submit ex_backend 80 ex_wording ex_store 1 2 ex_empty_payload = (Some ValidationError, ex_store) \<and>
   supplies_link ex_payload \<and>
   fst (submit ex_backend 80 ex_wording ex_store 1 2 ex_payload) = None \<and>
   length (submissions (snd (submit ex_backend 80 ex_wording ex_store 1 2 ex_payload))) = 3"
proof -
  have e: "\<not> supplies_file ex_empty_payload" "\<not> supplies_link ex_empty_payload"
    by (simp_all add: supplies_file_def supplies_link_def ex_empty_payload_def)
  have l: "supplies_link ex_payload"
    by (simp add: supplies_link_def ex_payload_def)
  have ok: "fst (submit ex_backend 80 ex_wording ex_store 1 2 ex_payload) = None"
    "length (submissions (snd (submit ex_backend 80 ex_wording ex_store 1 2 ex_payload))) = 3"
    by code_simp+
  show ?thesis
    using submit_requires_payload [where pl = ex_empty_payload and b = ex_backend and now = 80
        and wording = ex_wording and st = ex_store and pid = 1 and u = 2] e l ok
    by blast
qed

text \<open>
  Submit keeps the versions of a Parameter unique and increasing: the Submission it
  creates is pending, at the next version, above every version the Parameter has.
\<close>

lemma submit_versions_unique_increasing:
  assumes "distinct (version_keys st)"
    and "submit b now wording st pid u pl = (None, st')"
  shows "\<exists>row. submissions st' = submissions st @ [row] \<and>
               parameter_id row = Some pid \<and>
               status row = Some STATUS_PENDING \<and>
               version row = Some (next_version st pid) \<and>
               distinct (version_keys st')"
proof -
  from assms(2) obtain x st1 rc ty sid aid where
    ins: "insert_submission b now st x = Some st1"
    and x: "parameter_id x = Some pid" "version x = Some (next_version st pid)"
      "status x = Some STATUS_PENDING"
    and st': "st' = notify now rc ty wording sid aid st1"
    unfolding submit_def Let_def
    by (auto split: if_splits option.splits)
  from insert_submission_row [OF ins x(2)] obtain row where
    row: "submissions st1 = submissions st @ [row]" "parameter_id row = Some pid"
      "version row = Some (next_version st pid)" "status row = Some STATUS_PENDING"
    using x(1) x(3) by (auto simp: default_to_def)
  have subs: "submissions st' = submissions st @ [row]"
    using st' row(1) by (simp add: notify_submissions)
  have "distinct (version_keys st')"
    using assms(1) next_version_fresh [of pid st] by (simp add: version_keys_def subs row)
  with subs row show ?thesis by blast
qed

end
